theory Spec2Isabelle
  imports Complex_Main "HOL-Library.AList" "HOL-Library.Multiset"
begin

section \<open>Values of the host language\<close>

text \<open>
  The services compute with JavaScript numbers, strings and dates. A number is modelled
  as an exact rational: quantities, prices and amounts are sums and products of the
  inputs, and \<open>Math.floor\<close> is the floor of the exact product. Rounding to binary64,
  \<open>NaN\<close> and the infinities are outside this model. A string is a list of bytes; the
  Japanese literals of the source are written as their UTF-8 bytes, which keeps equality,
  concatenation and substring search as they are on well-formed strings.
\<close>

type_synonym number = rat

text \<open>
  A \<open>Date\<close> is seen through the methods the code calls: \<open>getTime\<close> (milliseconds since
  the epoch) and the local calendar readings \<open>getFullYear\<close>, \<open>getMonth\<close> (0 to 11) and
  \<open>getDate\<close>.
\<close>

record Date =
  getTime :: int
  getFullYear :: int
  getMonth :: nat
  getDate :: nat

subsection \<open>\<open>String(n)\<close> on integers and \<open>padStart\<close>\<close>

definition digit_char :: "nat \<Rightarrow> char" where
  "digit_char d = ''0123456789'' ! d"

function String_nat :: "nat \<Rightarrow> string" where
  "String_nat n = (if n < 10 then [digit_char n] else String_nat (n div 10) @ [digit_char (n mod 10)])"
  by pat_completeness auto
termination
  by (relation "measure (\<lambda>n. n)") auto

declare String_nat.simps [simp del]

definition String_int :: "int \<Rightarrow> string" where
  "String_int i = (if i < 0 then CHR ''-'' # String_nat (nat (- i)) else String_nat (nat i))"

text \<open>Decimal digits, as \<open>\\d\<close> matches them, and the number a run of digits denotes.\<close>

definition digitValue :: "char \<Rightarrow> nat option" where
  "digitValue c =
     (let n = of_char c :: nat in if 48 \<le> n \<and> n \<le> 57 then Some (n - 48) else None)"

definition isDigit :: "char \<Rightarrow> bool" where
  "isDigit c = (digitValue c \<noteq> None)"

definition digitsValue :: "string \<Rightarrow> nat" where
  "digitsValue ds = foldl (\<lambda>acc c. 10 * acc + (case digitValue c of Some d \<Rightarrow> d | None \<Rightarrow> 0)) 0 ds"

text \<open>\<open>s.padStart(n, c)\<close> for a one-character filler \<open>c\<close>.\<close>

definition padStart :: "nat \<Rightarrow> char \<Rightarrow> string \<Rightarrow> string" where
  "padStart n c s = replicate (n - length s) c @ s"

text \<open>\<open>xs.map((x, index) => f x index)\<close>.\<close>

definition map_index :: "('a \<Rightarrow> nat \<Rightarrow> 'b) \<Rightarrow> 'a list \<Rightarrow> 'b list" where
  "map_index f xs = map (\<lambda>(x, i). f x i) (zip xs [0..<length xs])"

text \<open>An object spread \<open>{...old, ...data}\<close>, field by field: a field present in \<open>data\<close> wins.\<close>

definition spread :: "'a \<Rightarrow> 'a option \<Rightarrow> 'a" where
  "spread old d = (case d of None \<Rightarrow> old | Some v \<Rightarrow> v)"

section \<open>Line items of the record store (\<open>config/larkbase-mapping.ts\<close>)\<close>

text \<open>
  A field of a remote record arrives as JSON. The shapes follow the record store's
  interface: a string, a number, a boolean, \<open>null\<close>, an object (a select option
  \<open>{text, id}\<close> is an object with a \<open>text\<close> member; \<open>FObject None\<close> is an object
  without one) or an array. A field that is absent reads as \<open>undefined\<close>, here \<open>None\<close>.
\<close>

datatype field_value =
    FString string
  | FNumber number
  | FBool bool
  | FNull
  | FObject "string option"
  | FList "field_value list"

type_synonym Fields = "string \<rightharpoonup> field_value"

record LarkBaseRecord =
  record_id :: string
  fields' :: Fields
  created_time :: "number option"
  last_modified_time :: "number option"

record 'a PaginatedResponse =
  items :: "'a list"
  total :: number
  page :: number
  pageSize :: number
  hasMore :: bool

text \<open>
  \<open>ProjectItem\<close>, the typed line item. \<open>contentType\<close>, \<open>status\<close> and \<open>clientName\<close>
  are string literal types in the source; the mapping from a record fills them with
  whatever string the record holds, so they are strings here.
\<close>

record ProjectItem =
  recordId :: string
  projectName :: string
  contentType :: string
  quantity :: number
  unitPrice :: number
  amount :: number
  scheduledDate :: "Date option"
  submissionDate :: "Date option"
  status :: string
  isInvoiced :: bool
  clientName :: string
  notes' :: "string option"
  invoiceDate :: "Date option"
  invoiceMonth :: "string option"
  createdAt :: "Date option"
  updatedAt :: "Date option"

text \<open>\<open>Partial<ProjectItem>\<close>: \<open>None\<close> is a field that is \<open>undefined\<close>.\<close>

record PartialProjectItem =
  recordId :: "string option"
  projectName :: "string option"
  contentType :: "string option"
  quantity :: "number option"
  unitPrice :: "number option"
  amount :: "number option"
  scheduledDate :: "Date option"
  submissionDate :: "Date option"
  status :: "string option"
  isInvoiced :: "bool option"
  clientName :: "string option"
  notes' :: "string option"
  invoiceDate :: "Date option"
  invoiceMonth :: "string option"
  createdAt :: "Date option"
  updatedAt :: "Date option"

text \<open>
  A group while \<open>getInvoiceGroups\<close> collects it, and the group it returns: the same
  object with its total and its item count added.
\<close>

record GroupEntry =
  clientName :: string
  invoiceMonth :: string
  items :: "ProjectItem list"

record InvoiceGroup = GroupEntry +
  totalAmount :: number
  itemCount :: nat

subsection \<open>The field labels of the table\<close>

text \<open>
  The records are keyed by the Japanese field labels of \<open>FIELD_NAME_MAPPING\<close>. Each
  label is a constant named after the line-item field it feeds.
\<close>

text \<open>The label anken-mei.\<close>

definition label_projectName :: string where
  "label_projectName =
     [CHR 0xE6, CHR 0xA1, CHR 0x88, CHR 0xE4, CHR 0xBB, CHR 0xB6, CHR 0xE5, CHR 0x90, CHR 0x8D]"

text \<open>The label naiyou.\<close>

definition label_contentType :: string where
  "label_contentType =
     [CHR 0xE5, CHR 0x86, CHR 0x85, CHR 0xE5, CHR 0xAE, CHR 0xB9]"

text \<open>The label suuryou.\<close>

definition label_quantity :: string where
  "label_quantity =
     [CHR 0xE6, CHR 0x95, CHR 0xB0, CHR 0xE9, CHR 0x87, CHR 0x8F]"

text \<open>The label tanka.\<close>

definition label_unitPrice :: string where
  "label_unitPrice =
     [CHR 0xE5, CHR 0x8D, CHR 0x98, CHR 0xE4, CHR 0xBE, CHR 0xA1]"

text \<open>The label kingaku.\<close>

definition label_amount :: string where
  "label_amount =
     [CHR 0xE9, CHR 0x87, CHR 0x91, CHR 0xE9, CHR 0xA1, CHR 0x8D]"

text \<open>The label shokou-yoteibi.\<close>

definition label_scheduledDate :: string where
  "label_scheduledDate =
     [CHR 0xE5, CHR 0x88, CHR 0x9D, CHR 0xE7, CHR 0xA8, CHR 0xBF, CHR 0xE4, CHR 0xBA,
      CHR 0x88, CHR 0xE5, CHR 0xAE, CHR 0x9A, CHR 0xE6, CHR 0x97, CHR 0xA5]"

text \<open>The label shokou-teishutsubi.\<close>

definition label_submissionDate :: string where
  "label_submissionDate =
     [CHR 0xE5, CHR 0x88, CHR 0x9D, CHR 0xE7, CHR 0xA8, CHR 0xBF, CHR 0xE6, CHR 0x8F,
      CHR 0x90, CHR 0xE5, CHR 0x87, CHR 0xBA, CHR 0xE6, CHR 0x97, CHR 0xA5]"

text \<open>The label anken-joukyou.\<close>

definition label_status :: string where
  "label_status =
     [CHR 0xE6, CHR 0xA1, CHR 0x88, CHR 0xE4, CHR 0xBB, CHR 0xB6, CHR 0xE7, CHR 0x8A,
      CHR 0xB6, CHR 0xE6, CHR 0xB3, CHR 0x81]"

text \<open>The label seikyuu-zumi.\<close>

definition label_isInvoiced :: string where
  "label_isInvoiced =
     [CHR 0xE8, CHR 0xAB, CHR 0x8B, CHR 0xE6, CHR 0xB1, CHR 0x82, CHR 0xE6, CHR 0xB8, CHR 0x88]"

text \<open>The label kuraianto-mei.\<close>

definition label_clientName :: string where
  "label_clientName =
     [CHR 0xE3, CHR 0x82, CHR 0xAF, CHR 0xE3, CHR 0x83, CHR 0xA9, CHR 0xE3, CHR 0x82,
      CHR 0xA4, CHR 0xE3, CHR 0x82, CHR 0xA2, CHR 0xE3, CHR 0x83, CHR 0xB3, CHR 0xE3,
      CHR 0x83, CHR 0x88, CHR 0xE5, CHR 0x90, CHR 0x8D]"

text \<open>The label bikou.\<close>

definition label_notes :: string where
  "label_notes =
     [CHR 0xE5, CHR 0x82, CHR 0x99, CHR 0xE8, CHR 0x80, CHR 0x83]"

text \<open>The label seikyuu-bi.\<close>

definition label_invoiceDate :: string where
  "label_invoiceDate =
     [CHR 0xE8, CHR 0xAB, CHR 0x8B, CHR 0xE6, CHR 0xB1, CHR 0x82, CHR 0xE6, CHR 0x97, CHR 0xA5]"

text \<open>The label seikyuu-zuki.\<close>

definition label_invoiceMonth :: string where
  "label_invoiceMonth =
     [CHR 0xE8, CHR 0xAB, CHR 0x8B, CHR 0xE6, CHR 0xB1, CHR 0x82, CHR 0xE6, CHR 0x9C, CHR 0x88]"

text \<open>The status nouhin (delivered).\<close>

definition status_delivered :: string where
  "status_delivered =
     [CHR 0xE7, CHR 0xB4, CHR 0x8D, CHR 0xE5, CHR 0x93, CHR 0x81]"

text \<open>The default content type, henshuu (editing).\<close>

definition default_contentType :: string where
  "default_contentType =
     [CHR 0xE7, CHR 0xB7, CHR 0xA8, CHR 0xE9, CHR 0x9B, CHR 0x86]"

text \<open>The default status, michakushu (not started).\<close>

definition default_status :: string where
  "default_status =
     [CHR 0xE6, CHR 0x9C, CHR 0xAA, CHR 0xE7, CHR 0x9D, CHR 0x80, CHR 0xE6, CHR 0x89, CHR 0x8B]"

text \<open>The default client, kabushiki-gaisha ontsugi.\<close>

definition default_clientName :: string where
  "default_clientName =
     [CHR 0xE6, CHR 0xA0, CHR 0xAA, CHR 0xE5, CHR 0xBC, CHR 0x8F, CHR 0xE4, CHR 0xBC,
      CHR 0x9A, CHR 0xE7, CHR 0xA4, CHR 0xBE, CHR 0x6F, CHR 0x6E, CHR 0x74, CHR 0x73,
      CHR 0x75, CHR 0x67, CHR 0x69]"

text \<open>The year mark, nen.\<close>

definition kanji_year :: string where
  "kanji_year =
     [CHR 0xE5, CHR 0xB9, CHR 0xB4]"

text \<open>The month mark, gatsu.\<close>

definition kanji_month :: string where
  "kanji_month =
     [CHR 0xE6, CHR 0x9C, CHR 0x88]"

section \<open>Types (\<open>types/index.ts\<close>)\<close>

text \<open>
  \<open>ApiResponse<T>\<close> is either an error or the data: \<open>Inl\<close> is \<open>success: false\<close> with
  its error, \<open>Inr\<close> is \<open>success: true\<close> with its data.
\<close>

record ApiError =
  code :: string
  message :: string

type_synonym 'a ApiResponse = "ApiError + 'a"

text \<open>
  The statuses are string literal types. In source order, \<open>InvoiceStatus\<close> is
  shitagaki (draft), hakkouzumi (issued), soufuzumi (sent), ichibu-nyuukin (partially
  paid), nyuukinzumi (paid), kabarai (overpaid), mikaishuu (uncollected), kyanseru
  (cancelled).
\<close>

datatype InvoiceStatus =
  Draft | Issued | Sent | PartiallyPaid | Paid | Overpaid | Uncollected | Cancelled

datatype QuoteStatus =
  QDraft | QSent | QPendingApproval | QApproved | QExpired | QCancelled

datatype TaxCategory =
  Taxable10 | TaxableReduced8 | NonTaxableSales | OutOfScopeSales

datatype AccountType = Futsu | Touza

record BankAccount =
  bankName :: string
  branchName :: string
  accountType :: AccountType
  accountNumber :: string
  accountHolder :: string

text \<open>
  \<open>ItemData\<close> is \<open>Omit<QuoteItem, 'id' | 'amount'>\<close>; \<open>QuoteItem\<close> adds the two
  fields, \<open>InvoiceItem\<close> adds the tax category, and \<open>InvoiceItemData\<close> is
  \<open>Omit<InvoiceItem, 'id' | 'amount'>\<close>.
\<close>

record ItemData =
  description :: string
  quantity :: number
  unit :: string
  unitPrice :: number
  taxable :: bool

record QuoteItem = ItemData +
  id' :: string
  amount :: number

record InvoiceItem = QuoteItem +
  taxCategory :: TaxCategory

record InvoiceItemData = ItemData +
  taxCategory :: TaxCategory

record Quote =
  id' :: string
  quoteNumber :: string
  projectId :: string
  clientId :: string
  status :: QuoteStatus
  issueDate :: Date
  validUntil :: Date
  items :: "QuoteItem list"
  subtotal :: number
  taxRate :: number
  taxAmount :: number
  totalAmount :: number
  notes' :: "string option"
  createdAt :: Date
  updatedAt :: Date

record Invoice =
  id' :: string
  invoiceNumber :: string
  projectId :: string
  quoteId :: "string option"
  clientId :: string
  status :: InvoiceStatus
  issueDate :: Date
  dueDate :: Date
  items :: "InvoiceItem list"
  subtotal :: number
  taxRate :: number
  taxAmount :: number
  totalAmount :: number
  paidAmount :: number
  notes' :: "string option"
  paymentTerms :: "string option"
  bankAccount :: "BankAccount option"
  createdAt :: Date
  updatedAt :: Date

text \<open>\<open>Partial<Invoice>\<close> and \<open>Partial<Quote>\<close>: \<open>None\<close> is a field that is not given.\<close>

record PartialInvoice =
  id' :: "string option"
  invoiceNumber :: "string option"
  projectId :: "string option"
  quoteId :: "string option"
  clientId :: "string option"
  status :: "InvoiceStatus option"
  issueDate :: "Date option"
  dueDate :: "Date option"
  items :: "InvoiceItem list option"
  subtotal :: "number option"
  taxRate :: "number option"
  taxAmount :: "number option"
  totalAmount :: "number option"
  paidAmount :: "number option"
  notes' :: "string option"
  paymentTerms :: "string option"
  bankAccount :: "BankAccount option"
  createdAt :: "Date option"
  updatedAt :: "Date option"

record PartialQuote =
  id' :: "string option"
  quoteNumber :: "string option"
  projectId :: "string option"
  clientId :: "string option"
  status :: "QuoteStatus option"
  issueDate :: "Date option"
  validUntil :: "Date option"
  items :: "QuoteItem list option"
  subtotal :: "number option"
  taxRate :: "number option"
  taxAmount :: "number option"
  totalAmount :: "number option"
  notes' :: "string option"
  createdAt :: "Date option"
  updatedAt :: "Date option"

definition NOT_FOUND :: string where
  "NOT_FOUND = ''NOT_FOUND''"

text \<open>The default payment terms, "within 30 days of the invoice's issue date".\<close>

definition defaultPaymentTerms :: string where
  "defaultPaymentTerms =
     [CHR 0xE8, CHR 0xAB, CHR 0x8B, CHR 0xE6, CHR 0xB1, CHR 0x82, CHR 0xE6, CHR 0x9B, CHR 0xB8,
      CHR 0xE7, CHR 0x99, CHR 0xBA, CHR 0xE8, CHR 0xA1, CHR 0x8C, CHR 0xE6, CHR 0x97, CHR 0xA5,
      CHR 0xE3, CHR 0x82, CHR 0x88, CHR 0xE3, CHR 0x82, CHR 0x8A, CHR 0x33, CHR 0x30, CHR 0xE6,
      CHR 0x97, CHR 0xA5, CHR 0xE4, CHR 0xBB, CHR 0xA5, CHR 0xE5, CHR 0x86, CHR 0x85]"

section \<open>InvoiceService (\<open>services/invoice.service.ts\<close>)\<close>

text \<open>
  The module-level \<open>Map\<close> of invoices is an association list in insertion order:
  \<open>get\<close> is \<open>map_of\<close>, \<open>set\<close> is \<open>AList.update\<close> (overwrite in place, else append),
  \<open>size\<close> is the length. Each operation takes the store and returns the new one.
  The readings of the clock and of \<open>Math.random\<close> are arguments: \<open>now\<close> is what
  \<open>new Date()\<close> gives during the call and \<open>rnd\<close> the random suffix of a new id.
\<close>

type_synonym InvoiceStore = "(string \<times> Invoice) list"

record InvoiceCreateData =
  projectId :: string
  clientId :: string
  quoteId :: "string option"
  dueDate :: Date
  items :: "InvoiceItemData list"
  notes' :: "string option"
  paymentTerms :: "string option"
  bankAccount :: "BankAccount option"
  taxRate :: "number option"

definition DEFAULT_BANK_ACCOUNT :: BankAccount where
  "DEFAULT_BANK_ACCOUNT =
     \<lparr> bankName = '''', branchName = '''', accountType = Futsu,
       accountNumber = '''', accountHolder = '''' \<rparr>"

definition InvoiceService_generateId :: "Date \<Rightarrow> string \<Rightarrow> string" where
  "InvoiceService_generateId now rnd = ''invoice-'' @ String_int (getTime now) @ ''-'' @ rnd"

definition InvoiceService_generateInvoiceNumber :: "Date \<Rightarrow> InvoiceStore \<Rightarrow> string" where
  "InvoiceService_generateInvoiceNumber now invoices =
     (let year = getFullYear now;
          month = padStart 2 (CHR ''0'') (String_nat (getMonth now + 1));
          sequence = padStart 4 (CHR ''0'') (String_nat (length invoices + 1))
      in ''INV-'' @ String_int year @ month @ ''-'' @ sequence)"

definition invoiceNotFound :: "string \<Rightarrow> ApiError" where
  "invoiceNotFound i = \<lparr> code = NOT_FOUND, message = ''Invoice '' @ i @ '' not found'' \<rparr>"

definition InvoiceService_get :: "InvoiceStore \<Rightarrow> string \<Rightarrow> Invoice ApiResponse" where
  "InvoiceService_get invoices i =
     (case map_of invoices i of
        None \<Rightarrow> Inl (invoiceNotFound i)
      | Some invoice \<Rightarrow> Inr invoice)"

definition InvoiceService_create ::
  "Date \<Rightarrow> string \<Rightarrow> InvoiceStore \<Rightarrow> InvoiceCreateData \<Rightarrow> Invoice ApiResponse \<times> InvoiceStore" where
  "InvoiceService_create now rnd invoices data =
     (let i = InvoiceService_generateId now rnd;
          invoiceNumber = InvoiceService_generateInvoiceNumber now invoices;
          taxRate = (case InvoiceCreateData.taxRate data of None \<Rightarrow> 1 / 10 | Some r \<Rightarrow> r);
          items = map_index (\<lambda>item index.
              \<lparr> description = description item, quantity = quantity item, unit = unit item,
                unitPrice = unitPrice item, taxable = taxable item,
                QuoteItem.id' = i @ ''-item-'' @ String_nat (index + 1),
                amount = quantity item * unitPrice item,
                InvoiceItem.taxCategory = InvoiceItemData.taxCategory item \<rparr>)
            (InvoiceCreateData.items data);
          taxableAmount = foldl (\<lambda>sum item. sum + amount item) 0 (filter (\<lambda>item. taxable item) items);
          nonTaxableAmount = foldl (\<lambda>sum item. sum + amount item) 0 (filter (\<lambda>item. \<not> taxable item) items);
          taxAmount = of_int \<lfloor>taxableAmount * taxRate\<rfloor>;
          totalAmount = taxableAmount + taxAmount + nonTaxableAmount;
          invoice =
            \<lparr> Invoice.id' = i,
              Invoice.invoiceNumber = invoiceNumber,
              Invoice.projectId = InvoiceCreateData.projectId data,
              Invoice.quoteId = InvoiceCreateData.quoteId data,
              Invoice.clientId = InvoiceCreateData.clientId data,
              Invoice.status = Draft,
              Invoice.issueDate = now,
              Invoice.dueDate = InvoiceCreateData.dueDate data,
              Invoice.items = items,
              Invoice.subtotal = taxableAmount + nonTaxableAmount,
              Invoice.taxRate = taxRate,
              Invoice.taxAmount = taxAmount,
              Invoice.totalAmount = totalAmount,
              Invoice.paidAmount = 0,
              Invoice.notes' = InvoiceCreateData.notes' data,
              Invoice.paymentTerms =
                (case InvoiceCreateData.paymentTerms data of
                   None \<Rightarrow> Some defaultPaymentTerms
                 | Some t \<Rightarrow> if t = [] then Some defaultPaymentTerms else Some t),
              Invoice.bankAccount =
                (case InvoiceCreateData.bankAccount data of
                   None \<Rightarrow> Some DEFAULT_BANK_ACCOUNT
                 | Some b \<Rightarrow> Some b),
              Invoice.createdAt = now,
              Invoice.updatedAt = now \<rparr>
      in (Inr invoice, AList.update i invoice invoices))"

definition InvoiceService_update ::
  "Date \<Rightarrow> InvoiceStore \<Rightarrow> string \<Rightarrow> PartialInvoice \<Rightarrow> Invoice ApiResponse \<times> InvoiceStore" where
  "InvoiceService_update now invoices i data =
     (case map_of invoices i of
        None \<Rightarrow> (Inl (invoiceNotFound i), invoices)
      | Some invoice \<Rightarrow>
         (let items =
                (case PartialInvoice.items data of
                   None \<Rightarrow> Invoice.items invoice
                 | Some its \<Rightarrow> map (\<lambda>item. item\<lparr> amount := quantity item * unitPrice item \<rparr>) its);
              taxRate = (case PartialInvoice.taxRate data of None \<Rightarrow> Invoice.taxRate invoice | Some r \<Rightarrow> r);
              taxableAmount = foldl (\<lambda>sum item. sum + amount item) 0 (filter (\<lambda>item. taxable item) items);
              nonTaxableAmount = foldl (\<lambda>sum item. sum + amount item) 0 (filter (\<lambda>item. \<not> taxable item) items);
              taxAmount = of_int \<lfloor>taxableAmount * taxRate\<rfloor>;
              totalAmount = taxableAmount + taxAmount + nonTaxableAmount;
              updated =
                \<lparr> Invoice.id' = spread (Invoice.id' invoice) (PartialInvoice.id' data),
                  Invoice.invoiceNumber = spread (Invoice.invoiceNumber invoice) (PartialInvoice.invoiceNumber data),
                  Invoice.projectId = spread (Invoice.projectId invoice) (PartialInvoice.projectId data),
                  Invoice.quoteId = spread (Invoice.quoteId invoice) (map_option Some (PartialInvoice.quoteId data)),
                  Invoice.clientId = spread (Invoice.clientId invoice) (PartialInvoice.clientId data),
                  Invoice.status = spread (Invoice.status invoice) (PartialInvoice.status data),
                  Invoice.issueDate = spread (Invoice.issueDate invoice) (PartialInvoice.issueDate data),
                  Invoice.dueDate = spread (Invoice.dueDate invoice) (PartialInvoice.dueDate data),
                  Invoice.items = items,
                  Invoice.subtotal = taxableAmount + nonTaxableAmount,
                  Invoice.taxRate = taxRate,
                  Invoice.taxAmount = taxAmount,
                  Invoice.totalAmount = totalAmount,
                  Invoice.paidAmount = spread (Invoice.paidAmount invoice) (PartialInvoice.paidAmount data),
                  Invoice.notes' = spread (Invoice.notes' invoice) (map_option Some (PartialInvoice.notes' data)),
                  Invoice.paymentTerms = spread (Invoice.paymentTerms invoice) (map_option Some (PartialInvoice.paymentTerms data)),
                  Invoice.bankAccount = spread (Invoice.bankAccount invoice) (map_option Some (PartialInvoice.bankAccount data)),
                  Invoice.createdAt = spread (Invoice.createdAt invoice) (PartialInvoice.createdAt data),
                  Invoice.updatedAt = now \<rparr>
          in (Inr updated, AList.update i updated invoices)))"

text \<open>The empty \<open>Partial<Invoice>\<close>, \<open>{}\<close>.\<close>

definition noInvoiceChange :: PartialInvoice where
  "noInvoiceChange =
     \<lparr> PartialInvoice.id' = None, PartialInvoice.invoiceNumber = None,
       PartialInvoice.projectId = None, PartialInvoice.quoteId = None,
       PartialInvoice.clientId = None, PartialInvoice.status = None,
       PartialInvoice.issueDate = None, PartialInvoice.dueDate = None,
       PartialInvoice.items = None, PartialInvoice.subtotal = None,
       PartialInvoice.taxRate = None, PartialInvoice.taxAmount = None,
       PartialInvoice.totalAmount = None, PartialInvoice.paidAmount = None,
       PartialInvoice.notes' = None, PartialInvoice.paymentTerms = None,
       PartialInvoice.bankAccount = None, PartialInvoice.createdAt = None,
       PartialInvoice.updatedAt = None \<rparr>"

definition InvoiceService_updateStatus ::
  "Date \<Rightarrow> InvoiceStore \<Rightarrow> string \<Rightarrow> InvoiceStatus \<Rightarrow> Invoice ApiResponse \<times> InvoiceStore" where
  "InvoiceService_updateStatus now invoices i st =
     InvoiceService_update now invoices i (noInvoiceChange\<lparr> PartialInvoice.status := Some st \<rparr>)"

definition InvoiceService_recordPayment ::
  "Date \<Rightarrow> InvoiceStore \<Rightarrow> string \<Rightarrow> number \<Rightarrow> Invoice ApiResponse \<times> InvoiceStore" where
  "InvoiceService_recordPayment now invoices i amt =
     (case map_of invoices i of
        None \<Rightarrow> (Inl (invoiceNotFound i), invoices)
      | Some invoice \<Rightarrow>
         (let paid = Invoice.paidAmount invoice + amt;
              st = (if paid \<ge> Invoice.totalAmount invoice
                    then (if paid > Invoice.totalAmount invoice then Overpaid else Paid)
                    else if paid > 0 then PartiallyPaid
                    else Invoice.status invoice)
          in InvoiceService_update now invoices i
               (noInvoiceChange\<lparr> PartialInvoice.paidAmount := Some paid,
                                  PartialInvoice.status := Some st \<rparr>)))"

section \<open>QuoteService (\<open>services/quote.service.ts\<close>)\<close>

type_synonym QuoteStore = "(string \<times> Quote) list"

record QuoteCreateData =
  projectId :: string
  clientId :: string
  validUntil :: Date
  items :: "ItemData list"
  notes' :: "string option"
  taxRate :: "number option"

definition QuoteService_generateId :: "Date \<Rightarrow> string \<Rightarrow> string" where
  "QuoteService_generateId now rnd = ''quote-'' @ String_int (getTime now) @ ''-'' @ rnd"

definition QuoteService_generateQuoteNumber :: "Date \<Rightarrow> QuoteStore \<Rightarrow> string" where
  "QuoteService_generateQuoteNumber now quotes =
     (let year = getFullYear now;
          month = padStart 2 (CHR ''0'') (String_nat (getMonth now + 1));
          sequence = padStart 4 (CHR ''0'') (String_nat (length quotes + 1))
      in ''Q-'' @ String_int year @ month @ ''-'' @ sequence)"

definition quoteNotFound :: "string \<Rightarrow> ApiError" where
  "quoteNotFound i = \<lparr> code = NOT_FOUND, message = ''Quote '' @ i @ '' not found'' \<rparr>"

definition QuoteService_create ::
  "Date \<Rightarrow> string \<Rightarrow> QuoteStore \<Rightarrow> QuoteCreateData \<Rightarrow> Quote ApiResponse \<times> QuoteStore" where
  "QuoteService_create now rnd quotes data =
     (let i = QuoteService_generateId now rnd;
          quoteNumber = QuoteService_generateQuoteNumber now quotes;
          taxRate = (case QuoteCreateData.taxRate data of None \<Rightarrow> 1 / 10 | Some r \<Rightarrow> r);
          items = map_index (\<lambda>item index.
              \<lparr> description = description item, quantity = quantity item, unit = unit item,
                unitPrice = unitPrice item, taxable = taxable item,
                QuoteItem.id' = i @ ''-item-'' @ String_nat (index + 1),
                amount = quantity item * unitPrice item \<rparr>)
            (QuoteCreateData.items data);
          subtotal = foldl (\<lambda>sum item. sum + amount item) 0 (filter (\<lambda>item. taxable item) items);
          nonTaxableAmount = foldl (\<lambda>sum item. sum + amount item) 0 (filter (\<lambda>item. \<not> taxable item) items);
          taxAmount = of_int \<lfloor>subtotal * taxRate\<rfloor>;
          totalAmount = subtotal + taxAmount + nonTaxableAmount;
          quote =
            \<lparr> Quote.id' = i,
              Quote.quoteNumber = quoteNumber,
              Quote.projectId = QuoteCreateData.projectId data,
              Quote.clientId = QuoteCreateData.clientId data,
              Quote.status = QDraft,
              Quote.issueDate = now,
              Quote.validUntil = QuoteCreateData.validUntil data,
              Quote.items = items,
              Quote.subtotal = subtotal + nonTaxableAmount,
              Quote.taxRate = taxRate,
              Quote.taxAmount = taxAmount,
              Quote.totalAmount = totalAmount,
              Quote.notes' = QuoteCreateData.notes' data,
              Quote.createdAt = now,
              Quote.updatedAt = now \<rparr>
      in (Inr quote, AList.update i quote quotes))"

definition QuoteService_update ::
  "Date \<Rightarrow> QuoteStore \<Rightarrow> string \<Rightarrow> PartialQuote \<Rightarrow> Quote ApiResponse \<times> QuoteStore" where
  "QuoteService_update now quotes i data =
     (case map_of quotes i of
        None \<Rightarrow> (Inl (quoteNotFound i), quotes)
      | Some quote \<Rightarrow>
         (let items =
                (case PartialQuote.items data of
                   None \<Rightarrow> Quote.items quote
                 | Some its \<Rightarrow> map (\<lambda>item. item\<lparr> amount := quantity item * unitPrice item \<rparr>) its);
              taxRate = (case PartialQuote.taxRate data of None \<Rightarrow> Quote.taxRate quote | Some r \<Rightarrow> r);
              subtotal = foldl (\<lambda>sum item. sum + amount item) 0 (filter (\<lambda>item. taxable item) items);
              nonTaxableAmount = foldl (\<lambda>sum item. sum + amount item) 0 (filter (\<lambda>item. \<not> taxable item) items);
              taxAmount = of_int \<lfloor>subtotal * taxRate\<rfloor>;
              totalAmount = subtotal + taxAmount + nonTaxableAmount;
              updated =
                \<lparr> Quote.id' = spread (Quote.id' quote) (PartialQuote.id' data),
                  Quote.quoteNumber = spread (Quote.quoteNumber quote) (PartialQuote.quoteNumber data),
                  Quote.projectId = spread (Quote.projectId quote) (PartialQuote.projectId data),
                  Quote.clientId = spread (Quote.clientId quote) (PartialQuote.clientId data),
                  Quote.status = spread (Quote.status quote) (PartialQuote.status data),
                  Quote.issueDate = spread (Quote.issueDate quote) (PartialQuote.issueDate data),
                  Quote.validUntil = spread (Quote.validUntil quote) (PartialQuote.validUntil data),
                  Quote.items = items,
                  Quote.subtotal = subtotal + nonTaxableAmount,
                  Quote.taxRate = taxRate,
                  Quote.taxAmount = taxAmount,
                  Quote.totalAmount = totalAmount,
                  Quote.notes' = spread (Quote.notes' quote) (map_option Some (PartialQuote.notes' data)),
                  Quote.createdAt = spread (Quote.createdAt quote) (PartialQuote.createdAt data),
                  Quote.updatedAt = now \<rparr>
          in (Inr updated, AList.update i updated quotes)))"

text \<open>The empty \<open>Partial<Quote>\<close>, \<open>{}\<close>.\<close>

definition noQuoteChange :: PartialQuote where
  "noQuoteChange =
     \<lparr> PartialQuote.id' = None, PartialQuote.quoteNumber = None,
       PartialQuote.projectId = None, PartialQuote.clientId = None,
       PartialQuote.status = None, PartialQuote.issueDate = None,
       PartialQuote.validUntil = None, PartialQuote.items = None,
       PartialQuote.subtotal = None, PartialQuote.taxRate = None,
       PartialQuote.taxAmount = None, PartialQuote.totalAmount = None,
       PartialQuote.notes' = None, PartialQuote.createdAt = None,
       PartialQuote.updatedAt = None \<rparr>"

section \<open>Pricing as the specification words it\<close>

text \<open>
  \<open>priceItems\<close> of the specification (section 4.2), written from its sentences and
  named \<open>spec_\<close>: the taxable subtotal sums \<open>quantity * unitPrice\<close> over the taxable
  items, the non-taxable subtotal over the others, the tax is the floor of the taxable
  subtotal times the rate, the subtotal is the sum of the two subtotals and the total is
  subtotal plus tax. They are compared with what the services compute.
\<close>

definition spec_taxableSubtotal :: "'a ItemData_scheme list \<Rightarrow> number" where
  "spec_taxableSubtotal its =
     sum_list (map (\<lambda>item. quantity item * unitPrice item) (filter (\<lambda>item. taxable item) its))"

definition spec_nonTaxableSubtotal :: "'a ItemData_scheme list \<Rightarrow> number" where
  "spec_nonTaxableSubtotal its =
     sum_list (map (\<lambda>item. quantity item * unitPrice item) (filter (\<lambda>item. \<not> taxable item) its))"

definition spec_subtotal :: "'a ItemData_scheme list \<Rightarrow> number" where
  "spec_subtotal its = spec_taxableSubtotal its + spec_nonTaxableSubtotal its"

definition spec_taxAmount :: "'a ItemData_scheme list \<Rightarrow> number \<Rightarrow> number" where
  "spec_taxAmount its r = of_int \<lfloor>spec_taxableSubtotal its * r\<rfloor>"

definition spec_totalAmount :: "'a ItemData_scheme list \<Rightarrow> number \<Rightarrow> number" where
  "spec_totalAmount its r = spec_subtotal its + spec_taxAmount its r"

text \<open>Every item carries \<open>amount = quantity * unitPrice\<close>.\<close>

definition amountsComputed :: "'a QuoteItem_scheme list \<Rightarrow> bool" where
  "amountsComputed its = list_all (\<lambda>item. amount item = quantity item * unitPrice item) its"

text \<open>The document invariant of the specification (section 3, Quote / Invoice).\<close>

definition pricedInvoice :: "Invoice \<Rightarrow> bool" where
  "pricedInvoice invoice =
     (amountsComputed (Invoice.items invoice) \<and>
      Invoice.subtotal invoice = spec_subtotal (Invoice.items invoice) \<and>
      Invoice.taxAmount invoice = spec_taxAmount (Invoice.items invoice) (Invoice.taxRate invoice) \<and>
      Invoice.totalAmount invoice = Invoice.subtotal invoice + Invoice.taxAmount invoice)"

definition pricedQuote :: "Quote \<Rightarrow> bool" where
  "pricedQuote quote =
     (amountsComputed (Quote.items quote) \<and>
      Quote.subtotal quote = spec_subtotal (Quote.items quote) \<and>
      Quote.taxAmount quote = spec_taxAmount (Quote.items quote) (Quote.taxRate quote) \<and>
      Quote.totalAmount quote = Quote.subtotal quote + Quote.taxAmount quote)"


subsection \<open>Concrete inputs\<close>

definition epoch :: Date where
  "epoch = \<lparr> getTime = 0, getFullYear = 1970, getMonth = 0, getDate = 1 \<rparr>"

text \<open>One taxable item of quantity 1 and unit price \<open>A\<close>, at tax rate \<open>r\<close>.\<close>

definition singleItemInvoiceData :: "number \<Rightarrow> number \<Rightarrow> InvoiceCreateData" where
  "singleItemInvoiceData A r =
     \<lparr> InvoiceCreateData.projectId = ''project-1'',
       InvoiceCreateData.clientId = ''client-1'',
       InvoiceCreateData.quoteId = None,
       InvoiceCreateData.dueDate = epoch,
       InvoiceCreateData.items =
         [\<lparr> description = ''item'', quantity = 1, unit = ''u'', unitPrice = A, taxable = True,
            InvoiceItemData.taxCategory = Taxable10 \<rparr>],
       InvoiceCreateData.notes' = None,
       InvoiceCreateData.paymentTerms = None,
       InvoiceCreateData.bankAccount = None,
       InvoiceCreateData.taxRate = Some r \<rparr>"

definition singleItemQuoteData :: "number \<Rightarrow> number \<Rightarrow> QuoteCreateData" where
  "singleItemQuoteData A r =
     \<lparr> QuoteCreateData.projectId = ''project-1'',
       QuoteCreateData.clientId = ''client-1'',
       QuoteCreateData.validUntil = epoch,
       QuoteCreateData.items =
         [\<lparr> description = ''item'', quantity = 1, unit = ''u'', unitPrice = A, taxable = True \<rparr>],
       QuoteCreateData.notes' = None,
       QuoteCreateData.taxRate = Some r \<rparr>"

text \<open>An invoice without items, as \<open>create\<close> accepts it.\<close>

definition noItemsInvoiceData :: InvoiceCreateData where
  "noItemsInvoiceData =
     \<lparr> InvoiceCreateData.projectId = ''project-1'',
       InvoiceCreateData.clientId = ''client-1'',
       InvoiceCreateData.quoteId = None,
       InvoiceCreateData.dueDate = epoch,
       InvoiceCreateData.items = [],
       InvoiceCreateData.notes' = None,
       InvoiceCreateData.paymentTerms = None,
       InvoiceCreateData.bankAccount = None,
       InvoiceCreateData.taxRate = None \<rparr>"

text \<open>
  The store after one \<open>create\<close> on the empty store, at the clock reading \<open>epoch\<close>
  with random suffix \<open>a\<close>; the new invoice has the id \<open>invoice-0-a\<close>.
\<close>

definition storeAfterCreate :: "InvoiceCreateData \<Rightarrow> InvoiceStore" where
  "storeAfterCreate data = snd (InvoiceService_create epoch ''a'' [] data)"

definition quoteStoreAfterCreate :: "QuoteCreateData \<Rightarrow> QuoteStore" where
  "quoteStoreAfterCreate data = snd (QuoteService_create epoch ''a'' [] data)"

section \<open>The host functions and the record store client\<close>

text \<open>
  The functions of the runtime that the mapping calls and that this model does not
  compute are arguments: \<open>parseFloat\<close> and \<open>Date.parse\<close> (\<open>None\<close> is \<open>NaN\<close>),
  \<open>new Date(ms)\<close>, \<open>String\<close> on a number and \<open>localeCompare\<close>. Every theorem holds
  for all of them.
\<close>

record Host =
  parseFloat :: "string \<Rightarrow> number option"
  Date_parse :: "string \<Rightarrow> number option"
  newDate :: "number \<Rightarrow> Date"
  String_number :: "number \<Rightarrow> string"
  localeCompare :: "string \<Rightarrow> string \<Rightarrow> int"

text \<open>
  \<open>LarkBaseClient\<close> (\<open>api/larkbase.ts\<close>) is the boundary to the remote table. A call
  reads or changes the remote state \<open>'s\<close> and answers with an \<open>ApiResponse\<close>; the
  services are written against the two calls they make.
\<close>

record 's LarkBaseClient =
  listRecords :: "'s \<Rightarrow> nat option \<Rightarrow> string option \<Rightarrow> LarkBaseRecord PaginatedResponse ApiResponse \<times> 's"
  updateRecord :: "'s \<Rightarrow> string \<Rightarrow> Fields \<Rightarrow> LarkBaseRecord ApiResponse \<times> 's"

section \<open>ProjectItemService (\<open>services/project-item.service.ts\<close>)\<close>

text \<open>\<open>xs.join(sep)\<close>.\<close>

fun join :: "string \<Rightarrow> string list \<Rightarrow> string" where
  "join sep [] = []"
| "join sep [x] = x"
| "join sep (x # y # ys) = x @ sep @ join sep (y # ys)"

text \<open>Truthiness of a field that may be absent.\<close>

fun truthy :: "field_value option \<Rightarrow> bool" where
  "truthy None = False"
| "truthy (Some (FString s)) = (s \<noteq> [])"
| "truthy (Some (FNumber n)) = (n \<noteq> 0)"
| "truthy (Some (FBool b)) = b"
| "truthy (Some FNull) = False"
| "truthy (Some (FObject t)) = True"
| "truthy (Some (FList vs)) = True"

text \<open>\<open>String(v)\<close>; inside an array, \<open>null\<close> prints as the empty string.\<close>

fun ToString :: "Host \<Rightarrow> field_value \<Rightarrow> string" where
  "ToString h (FString s) = s"
| "ToString h (FNumber n) = String_number h n"
| "ToString h (FBool b) = (if b then ''true'' else ''false'')"
| "ToString h FNull = ''null''"
| "ToString h (FObject t) = ''[object Object]''"
| "ToString h (FList vs) = join '','' (map (\<lambda>v. if v = FNull then [] else ToString h v) vs)"

definition getSelectValue :: "Fields \<Rightarrow> string \<Rightarrow> string \<Rightarrow> string" where
  "getSelectValue fs fieldName defaultValue =
     (case fs fieldName of
        Some (FString s) \<Rightarrow> s
      | Some (FObject (Some t)) \<Rightarrow> t
      | Some (FList (FString s # rest)) \<Rightarrow> s
      | Some (FList (FObject (Some t) # rest)) \<Rightarrow> t
      | _ \<Rightarrow> defaultValue)"

definition getDateValue :: "Host \<Rightarrow> Fields \<Rightarrow> string \<Rightarrow> Date option" where
  "getDateValue h fs fieldName =
     (case fs fieldName of
        Some (FNumber n) \<Rightarrow> Some (newDate h n)
      | Some (FString s) \<Rightarrow>
          (case Date_parse h s of
             Some parsed \<Rightarrow> Some (newDate h parsed)
           | None \<Rightarrow> None)
      | _ \<Rightarrow> None)"

definition getNumberValue :: "Host \<Rightarrow> Fields \<Rightarrow> string \<Rightarrow> number" where
  "getNumberValue h fs fieldName =
     (case fs fieldName of
        Some (FNumber n) \<Rightarrow> n
      | Some (FString s) \<Rightarrow> (case parseFloat h s of Some v \<Rightarrow> v | None \<Rightarrow> 0)
      | _ \<Rightarrow> 0)"

text \<open>
  The cast \<open>fields[name] as string | undefined\<close> is unchecked. The declared type is
  taken at its word: a string is passed on, an absent field is \<open>undefined\<close>, and a value
  of another shape, which the declared type excludes, is read as absent.
\<close>

definition castString :: "field_value option \<Rightarrow> string option" where
  "castString v = (case v of Some (FString s) \<Rightarrow> Some s | _ \<Rightarrow> None)"

definition recordToProjectItem :: "Host \<Rightarrow> LarkBaseRecord \<Rightarrow> ProjectItem" where
  "recordToProjectItem h record =
     (let fs = fields' record in
      \<lparr> ProjectItem.recordId = record_id record,
        ProjectItem.projectName =
          (case fs label_projectName of
             Some v \<Rightarrow> if truthy (Some v) then ToString h v else []
           | None \<Rightarrow> []),
        ProjectItem.contentType = getSelectValue fs label_contentType default_contentType,
        ProjectItem.quantity = getNumberValue h fs label_quantity,
        ProjectItem.unitPrice = getNumberValue h fs label_unitPrice,
        ProjectItem.amount = getNumberValue h fs label_amount,
        ProjectItem.scheduledDate = getDateValue h fs label_scheduledDate,
        ProjectItem.submissionDate = getDateValue h fs label_submissionDate,
        ProjectItem.status = getSelectValue fs label_status default_status,
        ProjectItem.isInvoiced = truthy (fs label_isInvoiced),
        ProjectItem.clientName = getSelectValue fs label_clientName default_clientName,
        ProjectItem.notes' = castString (fs label_notes),
        ProjectItem.invoiceDate = getDateValue h fs label_invoiceDate,
        ProjectItem.invoiceMonth = castString (fs label_invoiceMonth),
        ProjectItem.createdAt =
          (case created_time record of
             Some t \<Rightarrow> if t \<noteq> 0 then Some (newDate h t) else None
           | None \<Rightarrow> None),
        ProjectItem.updatedAt =
          (case last_modified_time record of
             Some t \<Rightarrow> if t \<noteq> 0 then Some (newDate h t) else None
           | None \<Rightarrow> None) \<rparr>)"

text \<open>\<open>if (v !== undefined) fields[label] = v\<close>.\<close>

definition setField :: "string \<Rightarrow> field_value option \<Rightarrow> Fields \<Rightarrow> Fields" where
  "setField label v fs = (case v of None \<Rightarrow> fs | Some x \<Rightarrow> fs(label \<mapsto> x))"

definition dateField :: "Date \<Rightarrow> field_value" where
  "dateField d = FNumber (of_int (getTime d))"

definition projectItemToFields :: "PartialProjectItem \<Rightarrow> Fields" where
  "projectItemToFields item =
     (let fs = Map.empty;
          fs = setField label_projectName (map_option FString (PartialProjectItem.projectName item)) fs;
          fs = setField label_contentType (map_option FString (PartialProjectItem.contentType item)) fs;
          fs = setField label_quantity (map_option FNumber (PartialProjectItem.quantity item)) fs;
          fs = setField label_unitPrice (map_option FNumber (PartialProjectItem.unitPrice item)) fs;
          fs = setField label_scheduledDate (map_option dateField (PartialProjectItem.scheduledDate item)) fs;
          fs = setField label_submissionDate (map_option dateField (PartialProjectItem.submissionDate item)) fs;
          fs = setField label_status (map_option FString (PartialProjectItem.status item)) fs;
          fs = setField label_isInvoiced (map_option FBool (PartialProjectItem.isInvoiced item)) fs;
          fs = setField label_clientName (map_option FString (PartialProjectItem.clientName item)) fs;
          fs = setField label_notes (map_option FString (PartialProjectItem.notes' item)) fs;
          fs = setField label_invoiceDate (map_option dateField (PartialProjectItem.invoiceDate item)) fs
      in fs)"

record ListOptions =
  pageSize :: "nat option"
  pageToken :: "string option"
  clientName :: "string option"
  status :: "string option"
  isInvoiced :: "bool option"

definition ProjectItemService_list ::
  "Host \<Rightarrow> 's LarkBaseClient \<Rightarrow> ListOptions \<Rightarrow> 's \<Rightarrow> ProjectItem PaginatedResponse ApiResponse \<times> 's" where
  "ProjectItemService_list h client options s =
     (case listRecords client s (ListOptions.pageSize options) (ListOptions.pageToken options) of
        (Inl e, s') \<Rightarrow> (Inl e, s')
      | (Inr data, s') \<Rightarrow>
         (let its = map (recordToProjectItem h) (PaginatedResponse.items data);
              its = (case ListOptions.clientName options of
                       Some c \<Rightarrow> if c \<noteq> [] then filter (\<lambda>item. ProjectItem.clientName item = c) its else its
                     | None \<Rightarrow> its);
              its = (case ListOptions.status options of
                       Some st \<Rightarrow> if st \<noteq> [] then filter (\<lambda>item. ProjectItem.status item = st) its else its
                     | None \<Rightarrow> its);
              its = (case ListOptions.isInvoiced options of
                       Some b \<Rightarrow> filter (\<lambda>item. ProjectItem.isInvoiced item = b) its
                     | None \<Rightarrow> its)
          in (Inr \<lparr> PaginatedResponse.items = its,
                    total = total data, page = page data,
                    PaginatedResponse.pageSize = PaginatedResponse.pageSize data,
                    hasMore = hasMore data \<rparr>, s')))"

definition ProjectItemService_update ::
  "Host \<Rightarrow> 's LarkBaseClient \<Rightarrow> string \<Rightarrow> PartialProjectItem \<Rightarrow> 's \<Rightarrow> ProjectItem ApiResponse \<times> 's" where
  "ProjectItemService_update h client recId data s =
     (let fs = projectItemToFields data in
      case updateRecord client s recId fs of
        (Inl e, s') \<Rightarrow> (Inl e, s')
      | (Inr r, s') \<Rightarrow> (Inr (recordToProjectItem h r), s'))"

text \<open>The empty \<open>Partial<ProjectItem>\<close>, \<open>{}\<close>.\<close>

definition noItemChange :: PartialProjectItem where
  "noItemChange =
     \<lparr> PartialProjectItem.recordId = None, PartialProjectItem.projectName = None,
       PartialProjectItem.contentType = None, PartialProjectItem.quantity = None,
       PartialProjectItem.unitPrice = None, PartialProjectItem.amount = None,
       PartialProjectItem.scheduledDate = None, PartialProjectItem.submissionDate = None,
       PartialProjectItem.status = None, PartialProjectItem.isInvoiced = None,
       PartialProjectItem.clientName = None, PartialProjectItem.notes' = None,
       PartialProjectItem.invoiceDate = None, PartialProjectItem.invoiceMonth = None,
       PartialProjectItem.createdAt = None, PartialProjectItem.updatedAt = None \<rparr>"

definition ProjectItemService_markAsInvoiced ::
  "Host \<Rightarrow> 's LarkBaseClient \<Rightarrow> string \<Rightarrow> Date \<Rightarrow> 's \<Rightarrow> ProjectItem ApiResponse \<times> 's" where
  "ProjectItemService_markAsInvoiced h client recId invDate s =
     ProjectItemService_update h client recId
       (noItemChange\<lparr> PartialProjectItem.isInvoiced := Some True,
                      PartialProjectItem.invoiceDate := Some invDate \<rparr>) s"

subsection \<open>Grouping by client and month\<close>

record GroupOptions =
  clientName :: "string option"
  year :: "int option"
  month :: "int option"
  onlyUnInvoiced :: "bool option"

text \<open>\<open>s.includes(t)\<close>: \<open>t\<close> occurs in \<open>s\<close> as a contiguous run.\<close>

fun startsWith :: "string \<Rightarrow> string \<Rightarrow> bool" where
  "startsWith s [] = True"
| "startsWith [] (c # t) = False"
| "startsWith (d # s) (c # t) = (d = c \<and> startsWith s t)"

fun String_includes :: "string \<Rightarrow> string \<Rightarrow> bool" where
  "String_includes [] t = (t = [])"
| "String_includes (c # s) t = (startsWith (c # s) t \<or> String_includes s t)"

definition getMonthString :: "Date \<Rightarrow> string" where
  "getMonthString d =
     (let y = getFullYear d;
          m = padStart 2 (CHR ''0'') (String_nat (getMonth d + 1))
      in String_int y @ kanji_year @ m @ kanji_month)"

text \<open>
  \<open>xs.sort(cmp)\<close>: a stable sort, \<open>x\<close> stays before \<open>y\<close> unless \<open>cmp x y > 0\<close>.
\<close>

fun insertBy :: "('a \<Rightarrow> 'a \<Rightarrow> int) \<Rightarrow> 'a \<Rightarrow> 'a list \<Rightarrow> 'a list" where
  "insertBy cmp x [] = [x]"
| "insertBy cmp x (y # ys) = (if cmp x y \<le> 0 then x # y # ys else y # insertBy cmp x ys)"

definition sortBy :: "('a \<Rightarrow> 'a \<Rightarrow> int) \<Rightarrow> 'a list \<Rightarrow> 'a list" where
  "sortBy cmp xs = foldr (insertBy cmp) xs []"

text \<open>The month an item is grouped under, and its key in the \<open>Map\<close> of groups.\<close>

definition groupMonth :: "Date \<Rightarrow> ProjectItem \<Rightarrow> string" where
  "groupMonth now item =
     (case ProjectItem.invoiceMonth item of
        Some m \<Rightarrow> if m \<noteq> [] then m
                  else getMonthString (case ProjectItem.submissionDate item of Some d \<Rightarrow> d | None \<Rightarrow> now)
      | None \<Rightarrow> getMonthString (case ProjectItem.submissionDate item of Some d \<Rightarrow> d | None \<Rightarrow> now))"

definition groupKey :: "Date \<Rightarrow> ProjectItem \<Rightarrow> string" where
  "groupKey now item = ProjectItem.clientName item @ ''|'' @ groupMonth now item"

text \<open>One turn of the loop \<open>for (const item of items)\<close> over the \<open>Map\<close> of groups.\<close>

definition addToGroups :: "Date \<Rightarrow> (string \<times> GroupEntry) list \<Rightarrow> ProjectItem \<Rightarrow> (string \<times> GroupEntry) list" where
  "addToGroups now groups item =
     (let month = groupMonth now item;
          key = groupKey now item;
          groups =
            (if map_of groups key = None
             then AList.update key
                    \<lparr> GroupEntry.clientName = ProjectItem.clientName item,
                      GroupEntry.invoiceMonth = month,
                      GroupEntry.items = [] \<rparr> groups
             else groups)
      in case map_of groups key of
           None \<Rightarrow> groups
         | Some g \<Rightarrow> AList.update key (g\<lparr> GroupEntry.items := GroupEntry.items g @ [item] \<rparr>) groups)"

text \<open>The year and month filter of \<open>getInvoiceGroups\<close>.\<close>

definition monthFilter :: "int \<Rightarrow> int \<Rightarrow> ProjectItem \<Rightarrow> bool" where
  "monthFilter y m item =
     (let targetMonth = String_int y @ kanji_year @ padStart 2 (CHR ''0'') (String_int m) @ kanji_month;
          byDate = (case ProjectItem.invoiceDate item of
                      Some d \<Rightarrow> getFullYear d = y \<and> int (getMonth d) + 1 = m
                    | None \<Rightarrow> False)
      in case ProjectItem.invoiceMonth item of
           Some im \<Rightarrow> if im \<noteq> [] then String_includes im targetMonth else byDate
         | None \<Rightarrow> byDate)"

text \<open>\<open>if (options?.year && options?.month) items = items.filter(...)\<close>.\<close>

definition filterByMonth :: "GroupOptions \<Rightarrow> ProjectItem list \<Rightarrow> ProjectItem list" where
  "filterByMonth options its =
     (case (GroupOptions.year options, GroupOptions.month options) of
        (Some y, Some m) \<Rightarrow> if y \<noteq> 0 \<and> m \<noteq> 0 then filter (monthFilter y m) its else its
      | _ \<Rightarrow> its)"

text \<open>The group with its total and count, and the order of the final sort (month label, descending).\<close>

definition withTotals :: "GroupEntry \<Rightarrow> InvoiceGroup" where
  "withTotals entry =
     \<lparr> GroupEntry.clientName = GroupEntry.clientName entry,
       GroupEntry.invoiceMonth = GroupEntry.invoiceMonth entry,
       GroupEntry.items = GroupEntry.items entry,
       InvoiceGroup.totalAmount =
         foldl (\<lambda>sum item. sum + ProjectItem.amount item) 0 (GroupEntry.items entry),
       InvoiceGroup.itemCount = length (GroupEntry.items entry) \<rparr>"

definition byMonthDescending :: "Host \<Rightarrow> InvoiceGroup \<Rightarrow> InvoiceGroup \<Rightarrow> int" where
  "byMonthDescending h a b = localeCompare h (GroupEntry.invoiceMonth b) (GroupEntry.invoiceMonth a)"

definition ProjectItemService_getInvoiceGroups ::
  "Host \<Rightarrow> 's LarkBaseClient \<Rightarrow> Date \<Rightarrow> GroupOptions \<Rightarrow> 's \<Rightarrow> InvoiceGroup list ApiResponse \<times> 's" where
  "ProjectItemService_getInvoiceGroups h client now options s =
     (case ProjectItemService_list h client
             \<lparr> ListOptions.pageSize = Some 500,
               ListOptions.pageToken = None,
               ListOptions.clientName = GroupOptions.clientName options,
               ListOptions.status = None,
               ListOptions.isInvoiced =
                 (if GroupOptions.onlyUnInvoiced options = Some True then Some False else None) \<rparr> s of
        (Inl e, s') \<Rightarrow> (Inl e, s')
      | (Inr listed, s') \<Rightarrow>
         (let its = filter (\<lambda>item. ProjectItem.status item = status_delivered) (PaginatedResponse.items listed);
              its = filterByMonth options its;
              groups = foldl (addToGroups now) [] its;
              result = map withTotals (map snd groups)
          in (Inr (sortBy (byMonthDescending h) result), s')))"

section \<open>LarkBaseInvoiceService (\<open>services/larkbase-invoice.service.ts\<close>)\<close>

record InvoiceGenerationOptions =
  dueDate :: Date
  paymentTerms :: "string option"
  bankAccount :: "BankAccount option"
  notes' :: "string option"














section \<open>FreeeExportService (\<open>services/freee-export.service.ts\<close>)\<close>

text \<open>
  A journal entry has the thirteen columns of the import format. The source names them in
  Japanese; here they are, in order: transaction date, debit account, debit sub-account,
  debit department, debit amount, debit tax category, credit account, credit sub-account,
  credit department, credit amount, credit tax category, summary and tag.
\<close>

record FreeeJournalEntry =
  txDate :: string
  debitAccount :: string
  debitSubAccount :: "string option"
  debitDepartment :: "string option"
  debitAmount :: number
  debitTaxCategory :: string
  creditAccount :: string
  creditSubAccount :: "string option"
  creditDepartment :: "string option"
  creditAmount :: number
  creditTaxCategory :: string
  summary :: string
  tag :: "string option"

record FreeeExportOptions =
  startDate :: "Date option"
  endDate :: "Date option"
  includeUnpaid :: "bool option"

text \<open>The account urikakekin (accounts receivable).\<close>

definition account_receivable :: string where
  "account_receivable =
     [CHR 0xE5, CHR 0xA3, CHR 0xB2, CHR 0xE6, CHR 0x8E, CHR 0x9B, CHR 0xE9, CHR 0x87, CHR 0x91]"

text \<open>The account uriagedaka (sales).\<close>

definition account_sales :: string where
  "account_sales =
     [CHR 0xE5, CHR 0xA3, CHR 0xB2, CHR 0xE4, CHR 0xB8, CHR 0x8A, CHR 0xE9, CHR 0xAB, CHR 0x98]"

text \<open>The account kariuke-shouhizei (consumption tax received).\<close>

definition account_taxPayable :: string where
  "account_taxPayable =
     [CHR 0xE4, CHR 0xBB, CHR 0xAE, CHR 0xE5, CHR 0x8F, CHR 0x97, CHR 0xE6, CHR 0xB6,
      CHR 0x88, CHR 0xE8, CHR 0xB2, CHR 0xBB, CHR 0xE7, CHR 0xA8, CHR 0x8E]"

text \<open>The account futsuu-yokin (ordinary deposit, the bank account).\<close>

definition account_bank :: string where
  "account_bank =
     [CHR 0xE6, CHR 0x99, CHR 0xAE, CHR 0xE9, CHR 0x80, CHR 0x9A, CHR 0xE9, CHR 0xA0,
      CHR 0x90, CHR 0xE9, CHR 0x87, CHR 0x91]"

text \<open>The tax category taishougai (out of scope).\<close>

definition tax_outOfScope :: string where
  "tax_outOfScope =
     [CHR 0xE5, CHR 0xAF, CHR 0xBE, CHR 0xE8, CHR 0xB1, CHR 0xA1, CHR 0xE5, CHR 0xA4, CHR 0x96]"

text \<open>The tax category ka-uriage 10% (taxable sales 10%).\<close>

definition tax_sales10 :: string where
  "tax_sales10 =
     [CHR 0xE8, CHR 0xAA, CHR 0xB2, CHR 0xE5, CHR 0xA3, CHR 0xB2, CHR 0xE4, CHR 0xB8,
      CHR 0x8A, CHR 0x31, CHR 0x30, CHR 0x25]"

text \<open>The tax category hi-uriage (non-taxable sales).\<close>

definition tax_exempt :: string where
  "tax_exempt =
     [CHR 0xE9, CHR 0x9D, CHR 0x9E, CHR 0xE5, CHR 0xA3, CHR 0xB2, CHR 0xE4, CHR 0xB8, CHR 0x8A]"

text \<open>The summary suffix uriage-keijou (sales recognition).\<close>

definition suffix_sales :: string where
  "suffix_sales =
     [CHR 0x20, CHR 0xE5, CHR 0xA3, CHR 0xB2, CHR 0xE4, CHR 0xB8, CHR 0x8A, CHR 0xE8,
      CHR 0xA8, CHR 0x88, CHR 0xE4, CHR 0xB8, CHR 0x8A]"

text \<open>The summary suffix shouhizei (consumption tax).\<close>

definition suffix_tax :: string where
  "suffix_tax =
     [CHR 0x20, CHR 0xE6, CHR 0xB6, CHR 0x88, CHR 0xE8, CHR 0xB2, CHR 0xBB, CHR 0xE7,
      CHR 0xA8, CHR 0x8E]"

text \<open>The summary suffix uriage-keijou (hikazei) (sales recognition, non-taxable).\<close>

definition suffix_salesExempt :: string where
  "suffix_salesExempt =
     [CHR 0x20, CHR 0xE5, CHR 0xA3, CHR 0xB2, CHR 0xE4, CHR 0xB8, CHR 0x8A, CHR 0xE8,
      CHR 0xA8, CHR 0x88, CHR 0xE4, CHR 0xB8, CHR 0x8A, CHR 0xEF, CHR 0xBC, CHR 0x88,
      CHR 0xE9, CHR 0x9D, CHR 0x9E, CHR 0xE8, CHR 0xAA, CHR 0xB2, CHR 0xE7, CHR 0xA8,
      CHR 0x8E, CHR 0xEF, CHR 0xBC, CHR 0x89]"

text \<open>The summary suffix nyuukin (payment received).\<close>

definition suffix_payment :: string where
  "suffix_payment =
     [CHR 0x20, CHR 0xE5, CHR 0x85, CHR 0xA5, CHR 0xE9, CHR 0x87, CHR 0x91]"

text \<open>The header row of the import format, thirteen column titles.\<close>

definition FREEE_CSV_HEADERS :: "string list" where
  "FREEE_CSV_HEADERS =
    [
     [CHR 0xE5, CHR 0x8F, CHR 0x96, CHR 0xE5, CHR 0xBC, CHR 0x95, CHR 0xE6, CHR 0x97, CHR 0xA5],
     [CHR 0xE5, CHR 0x80, CHR 0x9F, CHR 0xE6, CHR 0x96, CHR 0xB9, CHR 0xE5, CHR 0x8B,
      CHR 0x98, CHR 0xE5, CHR 0xAE, CHR 0x9A, CHR 0xE7, CHR 0xA7, CHR 0x91, CHR 0xE7,
      CHR 0x9B, CHR 0xAE],
     [CHR 0xE5, CHR 0x80, CHR 0x9F, CHR 0xE6, CHR 0x96, CHR 0xB9, CHR 0xE8, CHR 0xA3,
      CHR 0x9C, CHR 0xE5, CHR 0x8A, CHR 0xA9, CHR 0xE7, CHR 0xA7, CHR 0x91, CHR 0xE7,
      CHR 0x9B, CHR 0xAE],
     [CHR 0xE5, CHR 0x80, CHR 0x9F, CHR 0xE6, CHR 0x96, CHR 0xB9, CHR 0xE9, CHR 0x83,
      CHR 0xA8, CHR 0xE9, CHR 0x96, CHR 0x80],
     [CHR 0xE5, CHR 0x80, CHR 0x9F, CHR 0xE6, CHR 0x96, CHR 0xB9, CHR 0xE9, CHR 0x87,
      CHR 0x91, CHR 0xE9, CHR 0xA1, CHR 0x8D],
     [CHR 0xE5, CHR 0x80, CHR 0x9F, CHR 0xE6, CHR 0x96, CHR 0xB9, CHR 0xE7, CHR 0xA8,
      CHR 0x8E, CHR 0xE5, CHR 0x8C, CHR 0xBA, CHR 0xE5, CHR 0x88, CHR 0x86],
     [CHR 0xE8, CHR 0xB2, CHR 0xB8, CHR 0xE6, CHR 0x96, CHR 0xB9, CHR 0xE5, CHR 0x8B,
      CHR 0x98, CHR 0xE5, CHR 0xAE, CHR 0x9A, CHR 0xE7, CHR 0xA7, CHR 0x91, CHR 0xE7,
      CHR 0x9B, CHR 0xAE],
     [CHR 0xE8, CHR 0xB2, CHR 0xB8, CHR 0xE6, CHR 0x96, CHR 0xB9, CHR 0xE8, CHR 0xA3,
      CHR 0x9C, CHR 0xE5, CHR 0x8A, CHR 0xA9, CHR 0xE7, CHR 0xA7, CHR 0x91, CHR 0xE7,
      CHR 0x9B, CHR 0xAE],
     [CHR 0xE8, CHR 0xB2, CHR 0xB8, CHR 0xE6, CHR 0x96, CHR 0xB9, CHR 0xE9, CHR 0x83,
      CHR 0xA8, CHR 0xE9, CHR 0x96, CHR 0x80],
     [CHR 0xE8, CHR 0xB2, CHR 0xB8, CHR 0xE6, CHR 0x96, CHR 0xB9, CHR 0xE9, CHR 0x87,
      CHR 0x91, CHR 0xE9, CHR 0xA1, CHR 0x8D],
     [CHR 0xE8, CHR 0xB2, CHR 0xB8, CHR 0xE6, CHR 0x96, CHR 0xB9, CHR 0xE7, CHR 0xA8,
      CHR 0x8E, CHR 0xE5, CHR 0x8C, CHR 0xBA, CHR 0xE5, CHR 0x88, CHR 0x86],
     [CHR 0xE6, CHR 0x91, CHR 0x98, CHR 0xE8, CHR 0xA6, CHR 0x81],
     [CHR 0xE3, CHR 0x82, CHR 0xBF, CHR 0xE3, CHR 0x82, CHR 0xB0]
    ]"

definition formatDate :: "Date \<Rightarrow> string" where
  "formatDate d =
     (let year = getFullYear d;
          month = padStart 2 (CHR ''0'') (String_nat (getMonth d + 1));
          day = padStart 2 (CHR ''0'') (String_nat (getDate d))
      in String_int year @ ''-'' @ month @ ''-'' @ day)"

text \<open>The four entries that \<open>invoiceToJournalEntries\<close> can push.\<close>

definition salesEntry :: "Invoice \<Rightarrow> number \<Rightarrow> FreeeJournalEntry" where
  "salesEntry invoice taxableAmount =
     \<lparr> txDate = formatDate (Invoice.issueDate invoice),
       debitAccount = account_receivable,
       debitSubAccount = Some [],
       debitDepartment = Some [],
       debitAmount = taxableAmount + Invoice.taxAmount invoice,
       debitTaxCategory = tax_outOfScope,
       creditAccount = account_sales,
       creditSubAccount = Some [],
       creditDepartment = Some [],
       creditAmount = taxableAmount,
       creditTaxCategory = tax_sales10,
       summary = Invoice.invoiceNumber invoice @ suffix_sales,
       tag = Some (Invoice.projectId invoice) \<rparr>"

definition taxEntry :: "Invoice \<Rightarrow> FreeeJournalEntry" where
  "taxEntry invoice =
     \<lparr> txDate = formatDate (Invoice.issueDate invoice),
       debitAccount = account_receivable,
       debitSubAccount = Some [],
       debitDepartment = Some [],
       debitAmount = 0,
       debitTaxCategory = tax_outOfScope,
       creditAccount = account_taxPayable,
       creditSubAccount = Some [],
       creditDepartment = Some [],
       creditAmount = Invoice.taxAmount invoice,
       creditTaxCategory = tax_outOfScope,
       summary = Invoice.invoiceNumber invoice @ suffix_tax,
       tag = Some (Invoice.projectId invoice) \<rparr>"

definition nonTaxableEntry :: "Invoice \<Rightarrow> number \<Rightarrow> FreeeJournalEntry" where
  "nonTaxableEntry invoice nonTaxableAmount =
     \<lparr> txDate = formatDate (Invoice.issueDate invoice),
       debitAccount = account_receivable,
       debitSubAccount = Some [],
       debitDepartment = Some [],
       debitAmount = nonTaxableAmount,
       debitTaxCategory = tax_outOfScope,
       creditAccount = account_sales,
       creditSubAccount = Some [],
       creditDepartment = Some [],
       creditAmount = nonTaxableAmount,
       creditTaxCategory = tax_exempt,
       summary = Invoice.invoiceNumber invoice @ suffix_salesExempt,
       tag = Some (Invoice.projectId invoice) \<rparr>"

definition paymentEntry :: "Invoice \<Rightarrow> FreeeJournalEntry" where
  "paymentEntry invoice =
     \<lparr> txDate = formatDate (Invoice.updatedAt invoice),
       debitAccount = account_bank,
       debitSubAccount = Some [],
       debitDepartment = Some [],
       debitAmount = Invoice.paidAmount invoice,
       debitTaxCategory = tax_outOfScope,
       creditAccount = account_receivable,
       creditSubAccount = Some [],
       creditDepartment = Some [],
       creditAmount = Invoice.paidAmount invoice,
       creditTaxCategory = tax_outOfScope,
       summary = Invoice.invoiceNumber invoice @ suffix_payment,
       tag = Some (Invoice.projectId invoice) \<rparr>"

definition invoiceToJournalEntries :: "Invoice \<Rightarrow> FreeeJournalEntry list" where
  "invoiceToJournalEntries invoice =
     (let entries = [];
          entries =
            (if Invoice.status invoice \<noteq> Draft
             then (let taxableAmount =
                         foldl (\<lambda>sum item. sum + amount item) 0
                           (filter (\<lambda>item. taxable item) (Invoice.items invoice));
                       entries =
                         (if taxableAmount > 0
                          then (let entries = entries @ [salesEntry invoice taxableAmount]
                                in if Invoice.taxAmount invoice > 0
                                   then entries @ [taxEntry invoice] else entries)
                          else entries);
                       nonTaxableAmount =
                         foldl (\<lambda>sum item. sum + amount item) 0
                           (filter (\<lambda>item. \<not> taxable item) (Invoice.items invoice))
                   in if nonTaxableAmount > 0
                      then entries @ [nonTaxableEntry invoice nonTaxableAmount] else entries)
             else entries)
      in if Invoice.paidAmount invoice > 0 then entries @ [paymentEntry invoice] else entries)"

text \<open>\<open>v || ''\<close> on an optional string.\<close>

definition orEmpty :: "string option \<Rightarrow> string" where
  "orEmpty v = (case v of None \<Rightarrow> [] | Some t \<Rightarrow> t)"

definition journalEntryToRow :: "Host \<Rightarrow> FreeeJournalEntry \<Rightarrow> string list" where
  "journalEntryToRow h entry =
     [txDate entry,
      debitAccount entry,
      orEmpty (debitSubAccount entry),
      orEmpty (debitDepartment entry),
      String_number h (debitAmount entry),
      debitTaxCategory entry,
      creditAccount entry,
      orEmpty (creditSubAccount entry),
      orEmpty (creditDepartment entry),
      String_number h (creditAmount entry),
      creditTaxCategory entry,
      summary entry,
      orEmpty (tag entry)]"

text \<open>
  \<open>escapeCSV\<close>: a value with a comma, a double quote (byte 0x22) or a newline (byte
  0x0A) is wrapped in double quotes, with every double quote in it doubled.
\<close>

definition doubleQuotes :: "string \<Rightarrow> string" where
  "doubleQuotes v = concat (map (\<lambda>c. if c = CHR 0x22 then [CHR 0x22, CHR 0x22] else [c]) v)"

definition escapeCSV :: "string \<Rightarrow> string" where
  "escapeCSV v =
     (if CHR '','' \<in> set v \<or> CHR 0x22 \<in> set v \<or> CHR 0x0A \<in> set v
      then [CHR 0x22] @ doubleQuotes v @ [CHR 0x22]
      else v)"

text \<open>
  \<open>exportToCSV\<close>. No step of the model throws, so the \<open>catch\<close> branch with
  \<open>EXPORT_FAILED\<close> has no counterpart.
\<close>

definition entriesToExport :: "Host \<Rightarrow> Invoice list \<Rightarrow> FreeeExportOptions \<Rightarrow> FreeeJournalEntry list" where
  "entriesToExport h invoices options =
     (let filteredInvoices = invoices;
          filteredInvoices =
            (case startDate options of
               Some d \<Rightarrow> filter (\<lambda>inv. getTime (Invoice.issueDate inv) \<ge> getTime d) filteredInvoices
             | None \<Rightarrow> filteredInvoices);
          filteredInvoices =
            (case endDate options of
               Some d \<Rightarrow> filter (\<lambda>inv. getTime (Invoice.issueDate inv) \<le> getTime d) filteredInvoices
             | None \<Rightarrow> filteredInvoices);
          filteredInvoices =
            (if includeUnpaid options = Some False
             then filter (\<lambda>inv. Invoice.status inv = Paid \<or> Invoice.status inv = Overpaid) filteredInvoices
             else filteredInvoices);
          allEntries = concat (map invoiceToJournalEntries filteredInvoices)
      in sortBy (\<lambda>a b. localeCompare h (txDate a) (txDate b)) allEntries)"

definition exportToCSV :: "Host \<Rightarrow> Invoice list \<Rightarrow> FreeeExportOptions \<Rightarrow> string ApiResponse" where
  "exportToCSV h invoices options =
     (let allEntries = entriesToExport h invoices options;
          rows = FREEE_CSV_HEADERS # map (journalEntryToRow h) allEntries;
          csv = join [CHR 0x0A] (map (\<lambda>row. join '','' (map escapeCSV row)) rows)
      in Inr csv)"

section \<open>Reading a CSV text back\<close>

text \<open>
  The reader that the round trip of the specification asks for, splitting "respecting the
  quoting rules": outside quotes a comma ends a field and a newline ends a row, a double
  quote opens a quoted run; inside quotes two double quotes are one double quote and a
  single one closes the run. \<open>cur\<close> is the field read so far, reversed, and \<open>row\<close>
  the fields of the row read so far, reversed.
\<close>

fun parseCSVFrom :: "bool \<Rightarrow> string \<Rightarrow> string list \<Rightarrow> string \<Rightarrow> string list list" where
  "parseCSVFrom q cur row [] = [rev (rev cur # row)]"
| "parseCSVFrom False cur row (c # cs) =
     (if c = CHR '','' then parseCSVFrom False [] (rev cur # row) cs
      else if c = CHR 0x0A then rev (rev cur # row) # parseCSVFrom False [] [] cs
      else if c = CHR 0x22 then parseCSVFrom True cur row cs
      else parseCSVFrom False (c # cur) row cs)"
| "parseCSVFrom True cur row (c # cs) =
     (if c = CHR 0x22
      then (case cs of
              [] \<Rightarrow> parseCSVFrom False cur row cs
            | d # ds \<Rightarrow> if d = CHR 0x22 then parseCSVFrom True (CHR 0x22 # cur) row ds
                        else parseCSVFrom False cur row cs)
      else parseCSVFrom True (c # cur) row cs)"

definition parseCSV :: "string \<Rightarrow> string list list" where
  "parseCSV text = parseCSVFrom False [] [] text"

section \<open>A concrete host and an in-memory table\<close>

text \<open>
  The theorems hold for every host and every client. For the concrete examples one host
  and one client are fixed. The host runs in UTC, parses unsigned decimal integers and
  ISO dates \<open>YYYY-MM-DD\<close>, prints the integer part of a number and compares strings by
  their bytes.
\<close>

definition exampleParseFloat :: "string \<Rightarrow> number option" where
  "exampleParseFloat s =
     (let ds = takeWhile isDigit s in if ds = [] then None else Some (of_nat (digitsValue ds)))"

text \<open>Days since the epoch of a civil date, and back (proleptic Gregorian calendar).\<close>

definition daysFromCivil :: "int \<Rightarrow> int \<Rightarrow> int \<Rightarrow> int" where
  "daysFromCivil y m d =
     (let y' = (if m \<le> 2 then y - 1 else y);
          era = y' div 400;
          yoe = y' - era * 400;
          mp = (m + 9) mod 12;
          doy = (153 * mp + 2) div 5 + d - 1;
          doe = yoe * 365 + yoe div 4 - yoe div 100 + doy
      in era * 146097 + doe - 719468)"

definition utcDate :: "number \<Rightarrow> Date" where
  "utcDate t =
     (let ms = (if t < 0 then \<lceil>t\<rceil> else \<lfloor>t\<rfloor>);
          z = ms div 86400000 + 719468;
          era = z div 146097;
          doe = z - era * 146097;
          yoe = (doe - doe div 1460 + doe div 36524 - doe div 146096) div 365;
          doy = doe - (365 * yoe + yoe div 4 - yoe div 100);
          mp = (5 * doy + 2) div 153;
          d = doy - (153 * mp + 2) div 5 + 1;
          m = (if mp < 10 then mp + 3 else mp - 9);
          y = yoe + era * 400 + (if m \<le> 2 then 1 else 0)
      in \<lparr> getTime = ms, getFullYear = y, getMonth = nat (m - 1), getDate = nat d \<rparr>)"

definition exampleDateParse :: "string \<Rightarrow> number option" where
  "exampleDateParse s =
     (case s of
        [y1, y2, y3, y4, h1, m1, m2, h2, d1, d2] \<Rightarrow>
          if list_all isDigit [y1, y2, y3, y4, m1, m2, d1, d2] \<and> h1 = CHR ''-'' \<and> h2 = CHR ''-''
          then Some (of_int (daysFromCivil (int (digitsValue [y1, y2, y3, y4]))
                               (int (digitsValue [m1, m2])) (int (digitsValue [d1, d2])) * 86400000))
          else None
      | _ \<Rightarrow> None)"

fun compareBytes :: "string \<Rightarrow> string \<Rightarrow> int" where
  "compareBytes [] [] = 0"
| "compareBytes [] (c # t) = - 1"
| "compareBytes (c # s) [] = 1"
| "compareBytes (c # s) (d # t) =
     (if (of_char c :: nat) < of_char d then - 1
      else if (of_char d :: nat) < of_char c then 1
      else compareBytes s t)"

definition exampleHost :: Host where
  "exampleHost =
     \<lparr> parseFloat = exampleParseFloat,
       Date_parse = exampleDateParse,
       newDate = utcDate,
       String_number = (\<lambda>n. String_int \<lfloor>n\<rfloor>),
       localeCompare = compareBytes \<rparr>"

text \<open>
  The in-memory table: the remote state is the list of records. \<open>listRecords\<close> answers
  with the first page (20 records unless a page size is given), as
  \<open>LarkBaseClient.listRecords\<close> reports it; \<open>updateRecord\<close> overwrites the fields of
  the payload in the record with the given id and keeps the record's other fields.
\<close>

fun updateRow :: "string \<Rightarrow> Fields \<Rightarrow> LarkBaseRecord list \<Rightarrow> LarkBaseRecord list" where
  "updateRow i fs [] = []"
| "updateRow i fs (r # rs) =
     (if record_id r = i then r\<lparr> fields' := fields' r ++ fs \<rparr> # rs else r # updateRow i fs rs)"

definition tableListRecords ::
  "LarkBaseRecord list \<Rightarrow> nat option \<Rightarrow> string option
     \<Rightarrow> LarkBaseRecord PaginatedResponse ApiResponse \<times> LarkBaseRecord list" where
  "tableListRecords table psize token =
     (let n = (case psize of Some k \<Rightarrow> if k \<noteq> 0 then k else 20 | None \<Rightarrow> 20)
      in (Inr \<lparr> PaginatedResponse.items = take n table,
                total = of_nat (length table), page = 1,
                PaginatedResponse.pageSize = of_nat n,
                hasMore = (n < length table) \<rparr>, table))"

definition tableUpdateRecord ::
  "LarkBaseRecord list \<Rightarrow> string \<Rightarrow> Fields \<Rightarrow> LarkBaseRecord ApiResponse \<times> LarkBaseRecord list" where
  "tableUpdateRecord table i fs =
     (case find (\<lambda>r. record_id r = i) (updateRow i fs table) of
        None \<Rightarrow> (Inl \<lparr> code = ''1254043'', message = ''RecordIdNotFound'' \<rparr>, table)
      | Some r \<Rightarrow> (Inr r, updateRow i fs table))"

definition tableClient :: "LarkBaseRecord list LarkBaseClient" where
  "tableClient = \<lparr> listRecords = tableListRecords, updateRecord = tableUpdateRecord \<rparr>"

text \<open>A record with the three numeric fields given and nothing else.\<close>

definition numericRecord :: "string \<Rightarrow> field_value option \<Rightarrow> field_value option \<Rightarrow> field_value option \<Rightarrow> LarkBaseRecord" where
  "numericRecord i q p a =
     \<lparr> record_id = i,
       fields' = setField label_amount a (setField label_unitPrice p (setField label_quantity q Map.empty)),
       created_time = None, last_modified_time = None \<rparr>"

section \<open>Eligible items, as the specification words them\<close>




text \<open>
  A delivered line item with the given client, month label, quantity, unit price, amount
  and invoiced flag, and a table of three such items of two clients in one month.
\<close>

definition deliveredRecord ::
  "string \<Rightarrow> string \<Rightarrow> string \<Rightarrow> number \<Rightarrow> number \<Rightarrow> number \<Rightarrow> bool \<Rightarrow> LarkBaseRecord" where
  "deliveredRecord i client monthLabel q p a invoiced =
     \<lparr> record_id = i,
       fields' = [label_status \<mapsto> FString status_delivered,
                  label_clientName \<mapsto> FString client,
                  label_invoiceMonth \<mapsto> FString monthLabel,
                  label_quantity \<mapsto> FNumber q,
                  label_unitPrice \<mapsto> FNumber p,
                  label_amount \<mapsto> FNumber a,
                  label_isInvoiced \<mapsto> FBool invoiced],
       created_time = None, last_modified_time = None \<rparr>"

definition exampleTable :: "LarkBaseRecord list" where
  "exampleTable =
     [deliveredRecord ''r1'' ''A'' ''2025-01'' 1 1000 1000 False,
      deliveredRecord ''r2'' ''B'' ''2025-01'' 1 2000 2000 False,
      deliveredRecord ''r3'' ''A'' ''2025-01'' 1 500 500 False]"

definition noGroupOptions :: GroupOptions where
  "noGroupOptions =
     \<lparr> GroupOptions.clientName = None, year = None, month = None, onlyUnInvoiced = None \<rparr>"


section \<open>The totals of a document, from its item amounts\<close>


section \<open>Pricing: what the services compute\<close>

lemma foldl_add_sum_list:
  "foldl (\<lambda>sum item. sum + f item) a xs = a + sum_list (map f xs)"
  by (induction xs arbitrary: a) (simp_all add: algebra_simps)

lemma reduce_amounts:
  "foldl (\<lambda>sum item. sum + f item) (0::number) xs = sum_list (map f xs)"
  by (simp add: foldl_add_sum_list)



lemma filter_map_index:
  assumes "\<And>x i. P (f x i) = Q x"
  shows "map g (filter P (map_index f xs)) = map (\<lambda>(x, i). g (f x i)) (filter (\<lambda>(x, i). Q x) (zip xs [0..<length xs]))"
  using assms by (simp add: map_index_def filter_map comp_def case_prod_unfold)





lemma amounts_sum_computed:
  assumes "amountsComputed its"
  shows "sum_list (map amount (filter P its)) = sum_list (map (\<lambda>item. quantity item * unitPrice item) (filter P its))"
  using assms by (induction its) (simp_all add: amountsComputed_def)


lemma spec_subtotal_recompute:
  "spec_taxableSubtotal (map (\<lambda>item. item\<lparr> amount := quantity item * unitPrice item \<rparr>) its) = spec_taxableSubtotal its"
  "spec_nonTaxableSubtotal (map (\<lambda>item. item\<lparr> amount := quantity item * unitPrice item \<rparr>) its) = spec_nonTaxableSubtotal its"
  by (induction its) (simp_all add: spec_taxableSubtotal_def spec_nonTaxableSubtotal_def)


lemma recompute_id:
  assumes "amountsComputed its"
  shows "map (\<lambda>item. item\<lparr> amount := quantity item * unitPrice item \<rparr>) its = its"
  using assms by (induction its) (simp_all add: amountsComputed_def)

lemma computed_subtotals:
  assumes "amountsComputed its"
  shows "sum_list (map amount (filter (\<lambda>item. taxable item) its)) = spec_taxableSubtotal its"
    and "sum_list (map amount (filter (\<lambda>item. \<not> taxable item) its)) = spec_nonTaxableSubtotal its"
  using assms by (simp_all add: amounts_sum_computed spec_taxableSubtotal_def spec_nonTaxableSubtotal_def)


lemma InvoiceService_update_same:
  assumes "map_of invoices i = Some invoice" and "pricedInvoice invoice"
    and "PartialInvoice.items data = None \<or> PartialInvoice.items data = Some (Invoice.items invoice)"
    and "PartialInvoice.taxRate data = None \<or> PartialInvoice.taxRate data = Some (Invoice.taxRate invoice)"
  shows "\<exists>u. fst (InvoiceService_update now invoices i data) = Inr u \<and>
           Invoice.items u = Invoice.items invoice \<and>
           Invoice.subtotal u = Invoice.subtotal invoice \<and>
           Invoice.taxAmount u = Invoice.taxAmount invoice \<and>
           Invoice.totalAmount u = Invoice.totalAmount invoice"
proof -
  from assms(2) have ac: "amountsComputed (Invoice.items invoice)"
    by (simp add: pricedInvoice_def)
  have items: "(case PartialInvoice.items data of None \<Rightarrow> Invoice.items invoice
      | Some its \<Rightarrow> map (\<lambda>item. item\<lparr> amount := quantity item * unitPrice item \<rparr>) its) = Invoice.items invoice"
    using assms(3) ac by (auto simp: recompute_id)
  have rate: "(case PartialInvoice.taxRate data of None \<Rightarrow> Invoice.taxRate invoice | Some r \<Rightarrow> r) = Invoice.taxRate invoice"
    using assms(4) by auto
  show ?thesis
    using assms(1,2) ac
    by (simp add: InvoiceService_update_def Let_def items rate reduce_amounts computed_subtotals
        pricedInvoice_def spec_subtotal_def spec_taxAmount_def)
qed

lemma InvoiceService_recordPayment_status:
  assumes "map_of invoices i = Some invoice"
  shows "\<exists>u. fst (InvoiceService_recordPayment now invoices i amt) = Inr u \<and>
           Invoice.paidAmount u = Invoice.paidAmount invoice + amt \<and>
           Invoice.status u =
             (if Invoice.paidAmount invoice + amt > Invoice.totalAmount invoice then Overpaid
              else if Invoice.paidAmount invoice + amt = Invoice.totalAmount invoice then Paid
              else if 0 < Invoice.paidAmount invoice + amt then PartiallyPaid
              else Invoice.status invoice)"
  using assms
  by (simp add: InvoiceService_recordPayment_def InvoiceService_update_def Let_def spread_def
      noInvoiceChange_def)



lemma QuoteService_update_same:
  assumes "map_of quotes i = Some quote" and "pricedQuote quote"
    and "PartialQuote.items data = None \<or> PartialQuote.items data = Some (Quote.items quote)"
    and "PartialQuote.taxRate data = None \<or> PartialQuote.taxRate data = Some (Quote.taxRate quote)"
  shows "\<exists>u. fst (QuoteService_update now quotes i data) = Inr u \<and>
           Quote.items u = Quote.items quote \<and>
           Quote.subtotal u = Quote.subtotal quote \<and>
           Quote.taxAmount u = Quote.taxAmount quote \<and>
           Quote.totalAmount u = Quote.totalAmount quote"
proof -
  from assms(2) have ac: "amountsComputed (Quote.items quote)"
    by (simp add: pricedQuote_def)
  have items: "(case PartialQuote.items data of None \<Rightarrow> Quote.items quote
      | Some its \<Rightarrow> map (\<lambda>item. item\<lparr> amount := quantity item * unitPrice item \<rparr>) its) = Quote.items quote"
    using assms(3) ac by (auto simp: recompute_id)
  have rate: "(case PartialQuote.taxRate data of None \<Rightarrow> Quote.taxRate quote | Some r \<Rightarrow> r) = Quote.taxRate quote"
    using assms(4) by auto
  show ?thesis
    using assms(1,2) ac
    by (simp add: QuoteService_update_def Let_def items rate reduce_amounts computed_subtotals
        pricedQuote_def spec_subtotal_def spec_taxAmount_def)
qed

lemma created_invoice_lookup:
  "map_of (snd (InvoiceService_create now rnd invoices data)) (InvoiceService_generateId now rnd)
     = Some (projr (fst (InvoiceService_create now rnd invoices data)))"
  by (simp add: InvoiceService_create_def Let_def update_Some_unfold)


lemma String_nat_digit: "n < 10 \<Longrightarrow> String_nat n = [digit_char n]"
  by (simp add: String_nat.simps)

lemma generated_id_epoch_a: "InvoiceService_generateId epoch ''a'' = ''invoice-0-a''"
  by (simp add: InvoiceService_generateId_def epoch_def String_int_def String_nat_digit digit_char_def)

lemma storeAfterCreate_lookup:
  "\<exists>invoice. fst (InvoiceService_create epoch ''a'' [] data) = Inr invoice \<and>
     storeAfterCreate data = [(''invoice-0-a'', invoice)]"
  by (simp add: storeAfterCreate_def InvoiceService_create_def Let_def generated_id_epoch_a)

lemma quote_generated_id_epoch_a: "QuoteService_generateId epoch ''a'' = ''quote-0-a''"
  by (simp add: QuoteService_generateId_def epoch_def String_int_def String_nat_digit digit_char_def)

section \<open>Line items: the mapping and the update payload\<close>

lemmas label_defs =
  label_projectName_def label_contentType_def label_quantity_def label_unitPrice_def
  label_amount_def label_scheduledDate_def label_submissionDate_def label_status_def
  label_isInvoiced_def label_clientName_def label_notes_def label_invoiceDate_def
  label_invoiceMonth_def

lemma numericRecord_fields:
  "fields' (numericRecord i q p a) label_quantity = q"
  "fields' (numericRecord i q p a) label_unitPrice = p"
  "fields' (numericRecord i q p a) label_amount = a"
  by (cases q; cases p; cases a; simp add: numericRecord_def setField_def label_defs)+

lemma updateRow_ids: "map record_id (updateRow i fs table) = map record_id table"
  by (induction table) simp_all

lemma updateRow_frame:
  "map (\<lambda>r. fields' r |` (- dom fs)) (updateRow i fs table) = map (\<lambda>r. fields' r |` (- dom fs)) table"
proof (induction table)
  case Nil
  then show ?case by simp
next
  case (Cons r rs)
  have "(fields' r ++ fs) |` (- dom fs) = fields' r |` (- dom fs)"
    by (auto simp: restrict_map_def map_add_def fun_eq_iff split: option.splits)
  with Cons show ?case by simp
qed

lemma tableUpdateRecord_state: "snd (tableUpdateRecord table i fs) = updateRow i fs table"
proof -
  have "find (\<lambda>r. record_id r = i) (updateRow i fs table) = None \<Longrightarrow> updateRow i fs table = table"
    by (induction table) (auto split: if_splits)
  then show ?thesis
    by (auto simp: tableUpdateRecord_def split: option.splits)
qed

lemma markAsInvoiced_fields:
  "projectItemToFields (noItemChange\<lparr> PartialProjectItem.isInvoiced := Some True,
                                      PartialProjectItem.invoiceDate := Some d \<rparr>)
     = [label_isInvoiced \<mapsto> FBool True, label_invoiceDate \<mapsto> FNumber (of_int (getTime d))]"
  by (simp add: projectItemToFields_def noItemChange_def setField_def dateField_def)

section \<open>Grouping: the loop and the sort\<close>





















lemma getInvoiceGroups_example:
  "map_sum code (map (\<lambda>g. (GroupEntry.clientName g, GroupEntry.invoiceMonth g,
        map ProjectItem.recordId (GroupEntry.items g), InvoiceGroup.totalAmount g, InvoiceGroup.itemCount g)))
     (fst (ProjectItemService_getInvoiceGroups exampleHost tableClient epoch noGroupOptions exampleTable))
   = Inr [(''A'', ''2025-01'', [''r1'', ''r3''], 1500, 2), (''B'', ''2025-01'', [''r2''], 2000, 1)]"
  by code_simp




section \<open>Documents: totals from item amounts\<close>








section \<open>Accounting export\<close>

lemma account_bank_neq: "account_bank \<noteq> account_receivable"
  by (simp add: account_bank_def account_receivable_def)

lemma entry_debits:
  "debitAccount (salesEntry invoice a) = account_receivable"
  "debitAccount (taxEntry invoice) = account_receivable"
  "debitAccount (nonTaxableEntry invoice b) = account_receivable"
  "debitAccount (paymentEntry invoice) = account_bank"
  by (simp_all add: salesEntry_def taxEntry_def nonTaxableEntry_def paymentEntry_def)

subsection \<open>Reading an exported text back\<close>

text \<open>
  The reader consumes an escaped field up to the separator that follows it, then a row of
  escaped fields, then the rows of a text, so that reading undoes writing.
\<close>


lemma parse_plain:
  assumes "CHR '','' \<notin> set f" and "CHR 0x22 \<notin> set f" and "CHR 0x0A \<notin> set f"
  shows "parseCSVFrom False cur row (f @ rest) = parseCSVFrom False (rev f @ cur) row rest"
  using assms by (induction f arbitrary: cur) auto

lemma doubleQuotes_simps:
  "doubleQuotes [] = []"
  "doubleQuotes (CHR 0x22 # f) = CHR 0x22 # CHR 0x22 # doubleQuotes f"
  "c \<noteq> CHR 0x22 \<Longrightarrow> doubleQuotes (c # f) = c # doubleQuotes f"
  by (simp_all add: doubleQuotes_def)

lemma parse_quoted:
  assumes "rest = [] \<or> hd rest \<noteq> CHR 0x22"
  shows "parseCSVFrom True cur row (doubleQuotes f @ CHR 0x22 # rest) = parseCSVFrom False (rev f @ cur) row rest"
  using assms
proof (induction f arbitrary: cur)
  case Nil
  then show ?case
    by (cases rest) (simp_all add: doubleQuotes_simps)
next
  case (Cons c f)
  show ?case
  proof (cases "c = CHR 0x22")
    case True
    with Cons.IH [OF Cons.prems, of "CHR 0x22 # cur"] show ?thesis
      by (simp add: doubleQuotes_simps)
  next
    case False
    with Cons.IH [OF Cons.prems, of "c # cur"] show ?thesis
      by (simp add: doubleQuotes_simps)
  qed
qed

lemma parse_field:
  assumes "rest = [] \<or> hd rest = CHR '','' \<or> hd rest = CHR 0x0A"
  shows "parseCSVFrom False cur row (escapeCSV f @ rest) = parseCSVFrom False (rev f @ cur) row rest"
proof (cases "CHR '','' \<in> set f \<or> CHR 0x22 \<in> set f \<or> CHR 0x0A \<in> set f")
  case True
  from assms have "rest = [] \<or> hd rest \<noteq> CHR 0x22"
    by auto
  from parse_quoted [OF this, of cur row f] True show ?thesis
    by (simp add: escapeCSV_def)
next
  case False
  then show ?thesis
    by (simp add: escapeCSV_def parse_plain)
qed

lemma parse_row:
  assumes "rest = [] \<or> hd rest = CHR 0x0A"
  shows "parseCSVFrom False [] row (join '','' (map escapeCSV (f # fs)) @ rest)
           = parseCSVFrom False (rev (last (f # fs))) (rev (butlast (f # fs)) @ row) rest"
proof (induction fs arbitrary: f row)
  case Nil
  from assms have "rest = [] \<or> hd rest = CHR '','' \<or> hd rest = CHR 0x0A" by auto
  from parse_field [OF this, of "[]" row f] show ?case
    by simp
next
  case (Cons g gs)
  have "parseCSVFrom False [] row (escapeCSV f @ CHR '','' # join '','' (map escapeCSV (g # gs)) @ rest)
      = parseCSVFrom False (rev f) row (CHR '','' # join '','' (map escapeCSV (g # gs)) @ rest)"
    using parse_field [of "CHR '','' # join '','' (map escapeCSV (g # gs)) @ rest" "[]" row f]
    by simp
  also have "\<dots> = parseCSVFrom False [] (f # row) (join '','' (map escapeCSV (g # gs)) @ rest)"
    by simp
  also have "\<dots> = parseCSVFrom False (rev (last (g # gs))) (rev (butlast (g # gs)) @ f # row) rest"
    by (rule Cons.IH)
  finally show ?case
    by simp
qed

lemma parse_rows:
  assumes "list_all (\<lambda>r. r \<noteq> []) (r # rs)"
  shows "parseCSVFrom False [] [] (join [CHR 0x0A] (map (\<lambda>row. join '','' (map escapeCSV row)) (r # rs))) = r # rs"
  using assms
proof (induction rs arbitrary: r)
  case Nil
  then obtain f fs where r: "r = f # fs"
    by (cases r) auto
  from parse_row [of "[]" "[]" f fs] show ?case
    by (simp add: r del: last.simps butlast.simps)
next
  case (Cons r' rs)
  from Cons.prems obtain f fs where r: "r = f # fs"
    by (cases r) auto
  define rest where "rest = join [CHR 0x0A] (map (\<lambda>row. join '','' (map escapeCSV row)) (r' # rs))"
  from Cons.prems have IH: "parseCSVFrom False [] [] rest = r' # rs"
    unfolding rest_def by (intro Cons.IH) simp
  have whole: "join [CHR 0x0A] (map (\<lambda>row. join '','' (map escapeCSV row)) ((f # fs) # r' # rs))
      = join '','' (map escapeCSV (f # fs)) @ CHR 0x0A # rest"
    by (simp add: rest_def)
  have "parseCSVFrom False [] [] (join '','' (map escapeCSV (f # fs)) @ CHR 0x0A # rest)
      = parseCSVFrom False (rev (last (f # fs))) (rev (butlast (f # fs)) @ []) (CHR 0x0A # rest)"
    by (rule parse_row) simp
  also have "\<dots> = (butlast (f # fs) @ [last (f # fs)]) # parseCSVFrom False [] [] rest"
    by (simp del: last.simps butlast.simps)
  also have "butlast (f # fs) @ [last (f # fs)] = f # fs"
    by (rule append_butlast_last_id) simp
  finally show ?case
    by (simp only: r whole IH)
qed

lemma parseCSV_roundtrip:
  assumes "list_all (\<lambda>r. r \<noteq> []) (r # rs)"
  shows "parseCSV (join [CHR 0x0A] (map (\<lambda>row. join '','' (map escapeCSV row)) (r # rs))) = r # rs"
  using parse_rows [OF assms] by (simp add: parseCSV_def)


lemma length_FREEE_CSV_HEADERS: "length FREEE_CSV_HEADERS = 13"
  by (simp add: FREEE_CSV_HEADERS_def)

lemma length_journalEntryToRow: "length (journalEntryToRow h entry) = 13"
  by (simp add: journalEntryToRow_def)

lemma export_rows_nonempty:
  "list_all (\<lambda>r. r \<noteq> []) (FREEE_CSV_HEADERS # map (journalEntryToRow h) entries)"
proof -
  have "FREEE_CSV_HEADERS \<noteq> []"
    using length_FREEE_CSV_HEADERS by auto
  moreover have "journalEntryToRow h e \<noteq> []" for e
    using length_journalEntryToRow [of h e] by auto
  ultimately show ?thesis
    by (simp add: list_all_iff)
qed

lemma export_rows_lengths:
  "map length (FREEE_CSV_HEADERS # map (journalEntryToRow h) entries) = replicate (Suc (length entries)) 13"
  by (simp add: length_FREEE_CSV_HEADERS length_journalEntryToRow o_def map_replicate_const)

section \<open>Tax is truncated, never rounded up\<close>


section \<open>Payment thresholds\<close>

text \<open>
  Claim C3 says that \<open>recordPayment\<close> sets the status from the cumulative paid amount:
  above the total gives Overpaid, equal to the total gives Paid, strictly between zero and
  the total gives PartiallyPaid, and a paid amount of zero leaves the status unchanged.
  The last rule fails for an invoice whose total is zero: \<open>create\<close> accepts an empty item
  list, the new draft has total 0 and paid amount 0, and recording a payment of 0 meets the
  first test of the code (\<open>paidAmount >= totalAmount\<close>), so the draft becomes Paid.
\<close>

theorem recordPayment_zero_counterexample:
  "map_sum code Invoice.status (InvoiceService_get (storeAfterCreate noItemsInvoiceData) ''invoice-0-a'') = Inr Draft \<and>
   map_sum code Invoice.paidAmount (InvoiceService_get (storeAfterCreate noItemsInvoiceData) ''invoice-0-a'') = Inr 0 \<and>
   map_sum code Invoice.status
     (fst (InvoiceService_recordPayment epoch (storeAfterCreate noItemsInvoiceData) ''invoice-0-a'' 0)) = Inr Paid"
  by (simp add: storeAfterCreate_def InvoiceService_create_def Let_def generated_id_epoch_a
      InvoiceService_get_def InvoiceService_recordPayment_def InvoiceService_update_def
      noItemsInvoiceData_def map_index_def spread_def noInvoiceChange_def)

text \<open>
  Claim C3 as amended: for every stored invoice and every recorded amount the call
  succeeds, the paid amount becomes the cumulative one, and the status follows the
  threshold rule, where a paid amount of zero leaves the status unchanged when the total
  is positive (with a total of zero the rule for "equal to the total" applies).
\<close>

theorem recordPayment_threshold_rule:
  assumes "map_of invoices i = Some invoice"
  shows "\<exists>u. fst (InvoiceService_recordPayment now invoices i amt) = Inr u \<and>
           Invoice.paidAmount u = Invoice.paidAmount invoice + amt \<and>
           (Invoice.paidAmount u > Invoice.totalAmount invoice \<longrightarrow> Invoice.status u = Overpaid) \<and>
           (Invoice.paidAmount u = Invoice.totalAmount invoice \<longrightarrow> Invoice.status u = Paid) \<and>
           (0 < Invoice.paidAmount u \<and> Invoice.paidAmount u < Invoice.totalAmount invoice \<longrightarrow>
              Invoice.status u = PartiallyPaid) \<and>
           (Invoice.paidAmount u = 0 \<and> 0 < Invoice.totalAmount invoice \<longrightarrow>
              Invoice.status u = Invoice.status invoice)"
proof -
  from InvoiceService_recordPayment_status [OF assms, of now amt]
  obtain u where u: "fst (InvoiceService_recordPayment now invoices i amt) = Inr u"
    and paid: "Invoice.paidAmount u = Invoice.paidAmount invoice + amt"
    and st: "Invoice.status u =
             (if Invoice.paidAmount invoice + amt > Invoice.totalAmount invoice then Overpaid
              else if Invoice.paidAmount invoice + amt = Invoice.totalAmount invoice then Paid
              else if 0 < Invoice.paidAmount invoice + amt then PartiallyPaid
              else Invoice.status invoice)"
    by blast
  from st paid have "(Invoice.paidAmount u > Invoice.totalAmount invoice \<longrightarrow> Invoice.status u = Overpaid) \<and>
           (Invoice.paidAmount u = Invoice.totalAmount invoice \<longrightarrow> Invoice.status u = Paid) \<and>
           (0 < Invoice.paidAmount u \<and> Invoice.paidAmount u < Invoice.totalAmount invoice \<longrightarrow>
              Invoice.status u = PartiallyPaid) \<and>
           (Invoice.paidAmount u = 0 \<and> 0 < Invoice.totalAmount invoice \<longrightarrow>
              Invoice.status u = Invoice.status invoice)"
    by auto
  with u paid show ?thesis by blast
qed

theorem recordPayment_threshold_rule_witness:
  "\<exists>invoice u. map_of (storeAfterCreate (singleItemInvoiceData 10000 (1 / 10))) ''invoice-0-a'' = Some invoice \<and>
     Invoice.totalAmount invoice = 11000 \<and> Invoice.status invoice = Draft \<and>
     fst (InvoiceService_recordPayment epoch (storeAfterCreate (singleItemInvoiceData 10000 (1 / 10)))
            ''invoice-0-a'' 11000) = Inr u \<and>
     Invoice.paidAmount u = 11000 \<and> Invoice.status u = Paid"
proof -
  obtain invoice where h: "map_of (storeAfterCreate (singleItemInvoiceData 10000 (1 / 10))) ''invoice-0-a'' = Some invoice"
    and t: "Invoice.totalAmount invoice = 11000" and p: "Invoice.paidAmount invoice = 0"
    and s: "Invoice.status invoice = Draft"
    by (simp add: storeAfterCreate_def InvoiceService_create_def Let_def generated_id_epoch_a
        singleItemInvoiceData_def map_index_def)
  from recordPayment_threshold_rule [OF h, of epoch 11000] t p s h
  show ?thesis by auto
qed

section \<open>Re-pricing is idempotent\<close>

text \<open>
  Claim C5. A stored document that is priced (every item amount is quantity times unit
  price, and subtotal, tax and total are those of its items and rate: what \<open>create\<close> and
  \<open>update\<close> store, see \<open>InvoiceService_create_priced\<close> and
  \<open>InvoiceService_update_priced\<close>) is reproduced by an \<open>update\<close> that passes its own
  items and tax rate again: the items with their amounts, the subtotal, the tax amount and
  the total are identical. This holds for invoices and for quotes.
\<close>

theorem repricing_idempotent:
  "(map_of invoices i = Some invoice \<and> pricedInvoice invoice \<longrightarrow>
      (\<exists>u. fst (InvoiceService_update now invoices i
                  (noInvoiceChange\<lparr> PartialInvoice.items := Some (Invoice.items invoice),
                                     PartialInvoice.taxRate := Some (Invoice.taxRate invoice) \<rparr>)) = Inr u \<and>
           Invoice.items u = Invoice.items invoice \<and>
           map amount (Invoice.items u) = map amount (Invoice.items invoice) \<and>
           Invoice.subtotal u = Invoice.subtotal invoice \<and>
           Invoice.taxAmount u = Invoice.taxAmount invoice \<and>
           Invoice.totalAmount u = Invoice.totalAmount invoice)) \<and>
   (map_of quotes j = Some quote \<and> pricedQuote quote \<longrightarrow>
      (\<exists>u. fst (QuoteService_update now quotes j
                  (noQuoteChange\<lparr> PartialQuote.items := Some (Quote.items quote),
                                   PartialQuote.taxRate := Some (Quote.taxRate quote) \<rparr>)) = Inr u \<and>
           Quote.items u = Quote.items quote \<and>
           map amount (Quote.items u) = map amount (Quote.items quote) \<and>
           Quote.subtotal u = Quote.subtotal quote \<and>
           Quote.taxAmount u = Quote.taxAmount quote \<and>
           Quote.totalAmount u = Quote.totalAmount quote))"
proof (intro conjI impI)
  assume h: "map_of invoices i = Some invoice \<and> pricedInvoice invoice"
  let ?data = "noInvoiceChange\<lparr> PartialInvoice.items := Some (Invoice.items invoice),
                                 PartialInvoice.taxRate := Some (Invoice.taxRate invoice) \<rparr>"
  from h have "\<exists>u. fst (InvoiceService_update now invoices i ?data) = Inr u \<and>
           Invoice.items u = Invoice.items invoice \<and>
           Invoice.subtotal u = Invoice.subtotal invoice \<and>
           Invoice.taxAmount u = Invoice.taxAmount invoice \<and>
           Invoice.totalAmount u = Invoice.totalAmount invoice"
    by (intro InvoiceService_update_same) simp_all
  then show "\<exists>u. fst (InvoiceService_update now invoices i ?data) = Inr u \<and>
           Invoice.items u = Invoice.items invoice \<and>
           map amount (Invoice.items u) = map amount (Invoice.items invoice) \<and>
           Invoice.subtotal u = Invoice.subtotal invoice \<and>
           Invoice.taxAmount u = Invoice.taxAmount invoice \<and>
           Invoice.totalAmount u = Invoice.totalAmount invoice"
    by auto
next
  assume h: "map_of quotes j = Some quote \<and> pricedQuote quote"
  let ?data = "noQuoteChange\<lparr> PartialQuote.items := Some (Quote.items quote),
                               PartialQuote.taxRate := Some (Quote.taxRate quote) \<rparr>"
  from h have "\<exists>u. fst (QuoteService_update now quotes j ?data) = Inr u \<and>
           Quote.items u = Quote.items quote \<and>
           Quote.subtotal u = Quote.subtotal quote \<and>
           Quote.taxAmount u = Quote.taxAmount quote \<and>
           Quote.totalAmount u = Quote.totalAmount quote"
    by (intro QuoteService_update_same) simp_all
  then show "\<exists>u. fst (QuoteService_update now quotes j ?data) = Inr u \<and>
           Quote.items u = Quote.items quote \<and>
           map amount (Quote.items u) = map amount (Quote.items quote) \<and>
           Quote.subtotal u = Quote.subtotal quote \<and>
           Quote.taxAmount u = Quote.taxAmount quote \<and>
           Quote.totalAmount u = Quote.totalAmount quote"
    by auto
qed

theorem repricing_idempotent_witness:
  "\<exists>invoice u quote v.
     map_of (storeAfterCreate (singleItemInvoiceData 10000 (1 / 10))) ''invoice-0-a'' = Some invoice \<and>
     pricedInvoice invoice \<and> Invoice.totalAmount invoice = 11000 \<and>
     fst (InvoiceService_update epoch (storeAfterCreate (singleItemInvoiceData 10000 (1 / 10))) ''invoice-0-a''
            (noInvoiceChange\<lparr> PartialInvoice.items := Some (Invoice.items invoice),
                               PartialInvoice.taxRate := Some (Invoice.taxRate invoice) \<rparr>)) = Inr u \<and>
     Invoice.items u = Invoice.items invoice \<and> Invoice.totalAmount u = 11000 \<and>
     map_of (quoteStoreAfterCreate (singleItemQuoteData 10000 (1 / 10))) ''quote-0-a'' = Some quote \<and>
     pricedQuote quote \<and> Quote.totalAmount quote = 11000 \<and>
     fst (QuoteService_update epoch (quoteStoreAfterCreate (singleItemQuoteData 10000 (1 / 10))) ''quote-0-a''
            (noQuoteChange\<lparr> PartialQuote.items := Some (Quote.items quote),
                             PartialQuote.taxRate := Some (Quote.taxRate quote) \<rparr>)) = Inr v \<and>
     Quote.items v = Quote.items quote \<and> Quote.totalAmount v = 11000"
proof -
  obtain invoice where h: "map_of (storeAfterCreate (singleItemInvoiceData 10000 (1 / 10))) ''invoice-0-a'' = Some invoice"
    and t: "Invoice.totalAmount invoice = 11000" and p: "pricedInvoice invoice"
    by (simp add: storeAfterCreate_def InvoiceService_create_def Let_def generated_id_epoch_a
        singleItemInvoiceData_def map_index_def pricedInvoice_def amountsComputed_def
        spec_subtotal_def spec_taxAmount_def spec_taxableSubtotal_def spec_nonTaxableSubtotal_def)
  obtain quote where qh: "map_of (quoteStoreAfterCreate (singleItemQuoteData 10000 (1 / 10))) ''quote-0-a'' = Some quote"
    and qt: "Quote.totalAmount quote = 11000" and qp: "pricedQuote quote"
    by (simp add: quoteStoreAfterCreate_def QuoteService_create_def Let_def quote_generated_id_epoch_a
        singleItemQuoteData_def map_index_def pricedQuote_def amountsComputed_def
        spec_subtotal_def spec_taxAmount_def spec_taxableSubtotal_def spec_nonTaxableSubtotal_def)
  from repricing_idempotent [of "storeAfterCreate (singleItemInvoiceData 10000 (1 / 10))" "''invoice-0-a''" invoice
      epoch "quoteStoreAfterCreate (singleItemQuoteData 10000 (1 / 10))" "''quote-0-a''" quote]
    h t p qh qt qp
  show ?thesis by (auto simp del: One_nat_def)
qed

section \<open>The amount of a mapped line item\<close>

text \<open>
  Claim C8 says that every line item the repository maps from a remote record has
  \<open>amount = quantity * unitPrice\<close>. The mapping reads the three numbers from three
  fields of the record (suuryou, tanka, kingaku) and never multiplies: a record with
  quantity 2 and unit price 100 and no amount field maps to a line item with amount 0.
\<close>

theorem mapped_amount_counterexample:
  "ProjectItem.amount (recordToProjectItem exampleHost (numericRecord ''rec1'' (Some (FNumber 2)) (Some (FNumber 100)) None)) = 0 \<and>
   ProjectItem.quantity (recordToProjectItem exampleHost (numericRecord ''rec1'' (Some (FNumber 2)) (Some (FNumber 100)) None))
     * ProjectItem.unitPrice (recordToProjectItem exampleHost (numericRecord ''rec1'' (Some (FNumber 2)) (Some (FNumber 100)) None)) = 200"
  by (simp add: recordToProjectItem_def numericRecord_fields getNumberValue_def Let_def)

text \<open>
  Claim C8 as amended: the amount of a mapped line item is the number read from the
  record's amount field (which the table computes as a formula, according to the field
  mapping's comment), as quantity and unit price are the numbers read from theirs; the
  invariant holds for the records whose amount field holds the product of the two.
\<close>

theorem mapped_amount_is_remote_field:
  "ProjectItem.amount (recordToProjectItem h record) = getNumberValue h (fields' record) label_amount \<and>
   ProjectItem.quantity (recordToProjectItem h record) = getNumberValue h (fields' record) label_quantity \<and>
   ProjectItem.unitPrice (recordToProjectItem h record) = getNumberValue h (fields' record) label_unitPrice \<and>
   (fields' record label_quantity = Some (FNumber q) \<and> fields' record label_unitPrice = Some (FNumber p) \<and>
    fields' record label_amount = Some (FNumber (q * p)) \<longrightarrow>
      ProjectItem.amount (recordToProjectItem h record)
        = ProjectItem.quantity (recordToProjectItem h record) * ProjectItem.unitPrice (recordToProjectItem h record))"
  by (simp add: recordToProjectItem_def getNumberValue_def Let_def)

theorem mapped_amount_is_remote_field_witness:
  "fields' (numericRecord ''rec1'' (Some (FNumber 2)) (Some (FNumber 100)) (Some (FNumber 200))) label_quantity = Some (FNumber 2) \<and>
   fields' (numericRecord ''rec1'' (Some (FNumber 2)) (Some (FNumber 100)) (Some (FNumber 200))) label_unitPrice = Some (FNumber 100) \<and>
   fields' (numericRecord ''rec1'' (Some (FNumber 2)) (Some (FNumber 100)) (Some (FNumber 200))) label_amount = Some (FNumber (2 * 100)) \<and>
   ProjectItem.amount (recordToProjectItem exampleHost (numericRecord ''rec1'' (Some (FNumber 2)) (Some (FNumber 100)) (Some (FNumber 200)))) = 200 \<and>
   ProjectItem.amount (recordToProjectItem exampleHost (numericRecord ''rec1'' (Some (FNumber 2)) (Some (FNumber 100)) (Some (FNumber 200))))
     = ProjectItem.quantity (recordToProjectItem exampleHost (numericRecord ''rec1'' (Some (FNumber 2)) (Some (FNumber 100)) (Some (FNumber 200))))
       * ProjectItem.unitPrice (recordToProjectItem exampleHost (numericRecord ''rec1'' (Some (FNumber 2)) (Some (FNumber 100)) (Some (FNumber 200))))"
proof -
  let ?r = "numericRecord ''rec1'' (Some (FNumber 2)) (Some (FNumber 100)) (Some (FNumber 200))"
  have f: "fields' ?r label_quantity = Some (FNumber 2)" "fields' ?r label_unitPrice = Some (FNumber 100)"
    "fields' ?r label_amount = Some (FNumber (2 * 100))"
    by (simp_all add: numericRecord_fields)
  from mapped_amount_is_remote_field [of exampleHost ?r 2 100] f
  show ?thesis by (simp add: numericRecord_fields getNumberValue_def)
qed

section \<open>The payload of \<open>markAsInvoiced\<close>\<close>

text \<open>
  Claim C10. For every record id and invoice date, \<open>markAsInvoiced\<close> makes one
  \<open>updateRecord\<close> call whose payload holds exactly two fields: the invoiced flag
  (seikyuu-zumi), set to true, and the invoice date (seikyuu-bi), as the date's epoch
  milliseconds. Every other label of the table is absent from the payload. On the
  in-memory table, whose update overwrites the fields of the payload only, the call
  leaves the record ids and every other field of every record unchanged.
\<close>

theorem markAsInvoiced_payload:
  "ProjectItemService_markAsInvoiced h client recId d s =
     (case updateRecord client s recId
             [label_isInvoiced \<mapsto> FBool True, label_invoiceDate \<mapsto> FNumber (of_int (getTime d))] of
        (Inl e, s') \<Rightarrow> (Inl e, s')
      | (Inr r, s') \<Rightarrow> (Inr (recordToProjectItem h r), s')) \<and>
   dom [label_isInvoiced \<mapsto> FBool True, label_invoiceDate \<mapsto> FNumber (of_int (getTime d))]
     = {label_isInvoiced, label_invoiceDate} \<and>
   map ([label_isInvoiced \<mapsto> FBool True, label_invoiceDate \<mapsto> FNumber (of_int (getTime d))])
     [label_projectName, label_contentType, label_quantity, label_unitPrice, label_amount,
      label_scheduledDate, label_submissionDate, label_status, label_clientName, label_notes,
      label_invoiceMonth]
     = replicate 11 None \<and>
   snd (ProjectItemService_markAsInvoiced h tableClient recId d table)
     = updateRow recId [label_isInvoiced \<mapsto> FBool True, label_invoiceDate \<mapsto> FNumber (of_int (getTime d))] table \<and>
   map record_id (snd (ProjectItemService_markAsInvoiced h tableClient recId d table)) = map record_id table \<and>
   map (\<lambda>r. fields' r |` (- {label_isInvoiced, label_invoiceDate}))
       (snd (ProjectItemService_markAsInvoiced h tableClient recId d table))
     = map (\<lambda>r. fields' r |` (- {label_isInvoiced, label_invoiceDate})) table"
proof -
  let ?p = "[label_isInvoiced \<mapsto> FBool True, label_invoiceDate \<mapsto> FNumber (of_int (getTime d))]"
  have call: "ProjectItemService_markAsInvoiced h c recId d st =
     (case updateRecord c st recId ?p of
        (Inl e, s') \<Rightarrow> (Inl e, s')
      | (Inr r, s') \<Rightarrow> (Inr (recordToProjectItem h r), s'))" for c :: "'b LarkBaseClient" and st
    by (simp add: ProjectItemService_markAsInvoiced_def ProjectItemService_update_def
        markAsInvoiced_fields Let_def)
  have dom: "dom ?p = {label_isInvoiced, label_invoiceDate}"
    by auto
  have others: "map ?p [label_projectName, label_contentType, label_quantity, label_unitPrice, label_amount,
      label_scheduledDate, label_submissionDate, label_status, label_clientName, label_notes,
      label_invoiceMonth] = replicate 11 None"
    by (simp add: label_defs numeral_eq_Suc)
  have st: "snd (ProjectItemService_markAsInvoiced h tableClient recId d table) = updateRow recId ?p table"
    using tableUpdateRecord_state [of table recId ?p]
    by (auto simp: call tableClient_def split: prod.splits sum.splits)
  have ids: "map record_id (snd (ProjectItemService_markAsInvoiced h tableClient recId d table)) = map record_id table"
    by (simp only: st updateRow_ids)
  have frame: "map (\<lambda>r. fields' r |` (- {label_isInvoiced, label_invoiceDate}))
       (snd (ProjectItemService_markAsInvoiced h tableClient recId d table))
     = map (\<lambda>r. fields' r |` (- {label_isInvoiced, label_invoiceDate})) table"
    using updateRow_frame [of ?p recId table] by (simp only: st dom)
  from call [of client s] dom others st ids frame show ?thesis
    by (intro conjI)
qed

section \<open>The groups partition the eligible items\<close>



section \<open>No matching group: NotFound\<close>



section \<open>The pricing rule\<close>




section \<open>Journal entries of a draft, and the payment entry\<close>

text \<open>
  Claim C6. For every invoice, \<open>invoiceToJournalEntries\<close> emits no sales-recognition
  entry when the status is Draft: the entries are then the payment entry alone, or none,
  and no entry debits accounts receivable. Whenever the paid amount is positive, draft or
  not, exactly one entry debits the bank account: the payment entry, which comes last,
  credits accounts receivable, carries the paid amount on both legs and is dated at the
  invoice's last update.
\<close>

theorem journal_entries_draft_and_payment:
  "(Invoice.status invoice = Draft \<longrightarrow>
      invoiceToJournalEntries invoice = (if Invoice.paidAmount invoice > 0 then [paymentEntry invoice] else [])) \<and>
   (Invoice.status invoice = Draft \<longrightarrow>
      filter (\<lambda>e. debitAccount e = account_receivable) (invoiceToJournalEntries invoice) = []) \<and>
   (Invoice.paidAmount invoice > 0 \<longrightarrow>
      filter (\<lambda>e. debitAccount e = account_bank) (invoiceToJournalEntries invoice) = [paymentEntry invoice] \<and>
      last (invoiceToJournalEntries invoice) = paymentEntry invoice) \<and>
   debitAccount (paymentEntry invoice) = account_bank \<and>
   creditAccount (paymentEntry invoice) = account_receivable \<and>
   debitAmount (paymentEntry invoice) = Invoice.paidAmount invoice \<and>
   creditAmount (paymentEntry invoice) = Invoice.paidAmount invoice \<and>
   txDate (paymentEntry invoice) = formatDate (Invoice.updatedAt invoice)"
proof -
  have draft: "invoiceToJournalEntries invoice = (if Invoice.paidAmount invoice > 0 then [paymentEntry invoice] else [])"
    if "Invoice.status invoice = Draft"
    using that by (simp add: invoiceToJournalEntries_def Let_def)
  have draft2: "filter (\<lambda>e. debitAccount e = account_receivable) (invoiceToJournalEntries invoice) = []"
    if "Invoice.status invoice = Draft"
    using draft [OF that] account_bank_neq by (simp add: entry_debits)
  have pay: "filter (\<lambda>e. debitAccount e = account_bank) (invoiceToJournalEntries invoice) = [paymentEntry invoice] \<and>
      last (invoiceToJournalEntries invoice) = paymentEntry invoice"
    if "Invoice.paidAmount invoice > 0"
    using that account_bank_neq [symmetric]
    by (simp add: invoiceToJournalEntries_def Let_def entry_debits)
  have fields: "debitAccount (paymentEntry invoice) = account_bank \<and>
     creditAccount (paymentEntry invoice) = account_receivable \<and>
     debitAmount (paymentEntry invoice) = Invoice.paidAmount invoice \<and>
     creditAmount (paymentEntry invoice) = Invoice.paidAmount invoice \<and>
     txDate (paymentEntry invoice) = formatDate (Invoice.updatedAt invoice)"
    by (simp add: paymentEntry_def)
  from draft draft2 pay fields show ?thesis
    by blast
qed

theorem journal_entries_draft_and_payment_witness:
  "\<exists>invoice. fst (InvoiceService_update epoch (storeAfterCreate (singleItemInvoiceData 10000 (1 / 10))) ''invoice-0-a''
                    (noInvoiceChange\<lparr> PartialInvoice.paidAmount := Some 500 \<rparr>)) = Inr invoice \<and>
     Invoice.status invoice = Draft \<and> Invoice.paidAmount invoice > 0 \<and>
     invoiceToJournalEntries invoice = [paymentEntry invoice] \<and>
     filter (\<lambda>e. debitAccount e = account_bank) (invoiceToJournalEntries invoice) = [paymentEntry invoice] \<and>
     txDate (paymentEntry invoice) = ''1970-01-01'' \<and> debitAmount (paymentEntry invoice) = 500"
proof -
  obtain invoice where u: "fst (InvoiceService_update epoch (storeAfterCreate (singleItemInvoiceData 10000 (1 / 10))) ''invoice-0-a''
                    (noInvoiceChange\<lparr> PartialInvoice.paidAmount := Some 500 \<rparr>)) = Inr invoice"
    and st: "Invoice.status invoice = Draft" and p: "Invoice.paidAmount invoice = 500"
    and d: "Invoice.updatedAt invoice = epoch"
    using storeAfterCreate_lookup [of "singleItemInvoiceData 10000 (1 / 10)"]
    by (auto simp: InvoiceService_update_def InvoiceService_create_def Let_def spread_def noInvoiceChange_def)
  have f: "formatDate epoch = ''1970-01-01''"
    by (simp add: formatDate_def epoch_def String_int_def String_nat.simps [of 1970] String_nat.simps [of 197]
        String_nat.simps [of 19] String_nat_digit digit_char_def padStart_def)
  from journal_entries_draft_and_payment [of invoice] u st p d f
  show ?thesis by auto
qed

section \<open>The exported CSV read back\<close>

text \<open>
  Claim C7. For every list of invoices and all options, \<open>exportToCSV\<close> succeeds, and
  its text, split with the quoting rules of \<open>escapeCSV\<close> (a field with a comma, a double
  quote or a newline is wrapped in double quotes, its double quotes doubled), reads back as
  the header row followed by one row per journal entry, field for field. The header row
  has 13 fields and every data row has 13 fields.
\<close>

theorem exportToCSV_roundtrip:
  "\<exists>csv. exportToCSV h invoices options = Inr csv \<and>
         parseCSV csv = FREEE_CSV_HEADERS # map (journalEntryToRow h) (entriesToExport h invoices options) \<and>
         length (hd (parseCSV csv)) = 13 \<and>
         map length (tl (parseCSV csv)) = replicate (length (entriesToExport h invoices options)) 13"
proof -
  define rows where "rows = FREEE_CSV_HEADERS # map (journalEntryToRow h) (entriesToExport h invoices options)"
  define csv where "csv = join [CHR 0x0A] (map (\<lambda>row. join '','' (map escapeCSV row)) rows)"
  have made: "exportToCSV h invoices options = Inr csv"
    by (simp add: exportToCSV_def Let_def csv_def rows_def)
  have reread: "parseCSV csv = rows"
    unfolding csv_def rows_def by (rule parseCSV_roundtrip) (rule export_rows_nonempty)
  have lens: "map length rows = replicate (Suc (length (entriesToExport h invoices options))) 13"
    unfolding rows_def by (rule export_rows_lengths)
  have h13: "length (hd rows) = 13"
    by (simp add: rows_def length_FREEE_CSV_HEADERS)
  have t13: "map length (tl rows) = replicate (length (entriesToExport h invoices options)) 13"
    using lens by (simp add: rows_def)
  from made reread h13 t13 show ?thesis
    unfolding rows_def by (intro exI [of _ csv]) simp
qed

end
